theory Spec2Isabelle
  imports Main "HOL-Library.Word"
begin

section \<open>WeatherWave/server.py: the request handler and its server\<close>

text \<open>
  The repository is one Python file: a subclass \<open>WeatherHandler\<close> of
  \<open>http.server.SimpleHTTPRequestHandler\<close> that overrides \<open>do_GET\<close>, and a \<open>main\<close> that
  runs it in a \<open>socketserver.TCPServer\<close>. The handler is embedded as a state transformer on
  the handler object. The methods of \<open>BaseHTTPRequestHandler\<close> that it calls
  (\<open>send_response\<close>, \<open>send_header\<close>, \<open>end_headers\<close>) are written out after CPython 3.11's
  \<open>http/server.py\<close>; the inherited \<open>do_GET\<close> and the rest of the base class are
  parameters. What the handler's own expressions compute (\<open>urlparse\<close>, \<open>os.environ.get\<close>,
  the f-string, \<open>str.encode\<close>) is written out, with every exception they can raise as an
  outcome.
\<close>

subsection \<open>Python values\<close>

text \<open>
  A \<open>bytes\<close> object is a list of octets. The request target \<open>self.path\<close> is decoded by
  \<open>http.server\<close> from the request line as ISO-8859-1, so each of its characters is one of
  the 256 values of \<^typ>\<open>char\<close>. A value of \<open>os.environ\<close> is an arbitrary Python \<open>str\<close>: a
  list of code points (each below \<open>0x110000\<close>), among them the lone surrogates
  \<open>U+DC80..U+DCFF\<close> by which Python represents environment bytes that are not valid in
  the file-system encoding.
\<close>

type_synonym byte = "8 word"
type_synonym ustr = "nat list"

definition str :: "string \<Rightarrow> ustr" where
  "str cs = map of_char cs"

datatype exn = ValueError | UnicodeEncodeError | AttributeError | OSError

datatype outcome = Returned | Raised exn

subsection \<open>\<open>str.encode('utf-8')\<close>\<close>

definition is_surrogate :: "nat \<Rightarrow> bool" where
  "is_surrogate c \<longleftrightarrow> 0xD800 \<le> c \<and> c \<le> 0xDFFF"

definition utf8_char :: "nat \<Rightarrow> byte list" where
  "utf8_char c =
     (if c < 0x80 then [of_nat c]
      else if c < 0x800 then [of_nat (0xC0 + c div 64), of_nat (0x80 + c mod 64)]
      else if c < 0x10000 then
        [of_nat (0xE0 + c div 4096), of_nat (0x80 + c div 64 mod 64), of_nat (0x80 + c mod 64)]
      else
        [of_nat (0xF0 + c div 262144), of_nat (0x80 + c div 4096 mod 64),
         of_nat (0x80 + c div 64 mod 64), of_nat (0x80 + c mod 64)])"

text \<open>The error handler is the default \<open>strict\<close>: a surrogate code point raises.\<close>

definition encode_utf8 :: "ustr \<Rightarrow> exn + byte list" where
  "encode_utf8 s =
     (if list_ex is_surrogate s then Inl UnicodeEncodeError
      else Inr (concat (map utf8_char s)))"

subsection \<open>\<open>urllib.parse.urlparse\<close>\<close>

text \<open>
  \<open>urlparse\<close> is written out after CPython 3.11's \<open>urllib/parse.py\<close>. Two of its checks on
  a non-empty network location are left as parameters: \<open>_check_bracketed_host\<close> (which
  needs the \<open>ipaddress\<close> module) and the NFKC comparison of \<open>_checknetloc\<close> (which needs
  the Unicode database). Each is \<open>True\<close> where the check passes and \<open>False\<close> where it raises
  \<open>ValueError\<close>. Two more facts of the installation are parameters: the string that
  \<open>version_string()\<close> returns (\<open>server_version\<close> and \<open>sys_version\<close>), and the bytes that
  the text stream \<open>sys.stderr\<close> makes of a text (its encoding is the locale's).
\<close>

record pylib =
  bracketed_host_ok :: "string \<Rightarrow> bool"
  nfkc_ok :: "string \<Rightarrow> bool"
  version_string :: string
  stderr_encode :: "string \<Rightarrow> byte list"

record parse_result =
  pr_scheme :: string
  pr_netloc :: string
  pr_path :: string
  pr_params :: string
  pr_query :: string
  pr_fragment :: string

definition uses_params :: "string list" where
  "uses_params = ['''', ''ftp'', ''hdl'', ''prospero'', ''http'', ''imap'',
                  ''https'', ''shttp'', ''rtsp'', ''rtsps'', ''rtspu'', ''sip'',
                  ''sips'', ''mms'', ''sftp'', ''tel'']"

definition scheme_chars :: string where
  "scheme_chars = ''abcdefghijklmnopqrstuvwxyz'' @ ''ABCDEFGHIJKLMNOPQRSTUVWXYZ'' @
                  ''0123456789'' @ ''+-.''"

definition is_ascii_alpha :: "char \<Rightarrow> bool" where
  "is_ascii_alpha c \<longleftrightarrow>
     (let n = (of_char c :: nat) in (65 \<le> n \<and> n \<le> 90) \<or> (97 \<le> n \<and> n \<le> 122))"

definition isascii :: "string \<Rightarrow> bool" where
  "isascii s \<longleftrightarrow> list_all (\<lambda>c. (of_char c :: nat) < 128) s"

definition ascii_lower :: "char \<Rightarrow> char" where
  "ascii_lower c =
     (let n = (of_char c :: nat) in if 65 \<le> n \<and> n \<le> 90 then char_of (n + 32) else c)"

text \<open>\<open>s.split(c, 1)\<close> for a \<open>c\<close> that occurs in \<open>s\<close>, and \<open>s.partition(c)\<close> in general.\<close>

definition split_once :: "char \<Rightarrow> string \<Rightarrow> string \<times> string" where
  "split_once c s = (takeWhile (\<lambda>x. x \<noteq> c) s, drop 1 (dropWhile (\<lambda>x. x \<noteq> c) s))"

definition lstrip_c0 :: "string \<Rightarrow> string" where
  "lstrip_c0 url = dropWhile (\<lambda>c. (of_char c :: nat) \<le> 32) url"

definition remove_unsafe :: "string \<Rightarrow> string" where
  "remove_unsafe url = filter (\<lambda>c. c \<noteq> CHR 0x09 \<and> c \<noteq> CHR 0x0D \<and> c \<noteq> CHR 0x0A) url"

definition split_scheme :: "string \<Rightarrow> string \<times> string" where
  "split_scheme url =
     (let pre = takeWhile (\<lambda>c. c \<noteq> CHR '':'') url in
      if CHR '':'' \<in> set url \<and> pre \<noteq> [] \<and> is_ascii_alpha (hd pre)
         \<and> list_all (\<lambda>c. c \<in> set scheme_chars) pre
      then (map ascii_lower pre, drop (length pre + 1) url)
      else ('''', url))"

definition splitnetloc :: "string \<Rightarrow> string \<times> string" where
  "splitnetloc url =
     (let is_delim = (\<lambda>c. c = CHR ''/'' \<or> c = CHR ''?'' \<or> c = CHR ''#'');
          rest = drop 2 url
      in (takeWhile (\<lambda>c. \<not> is_delim c) rest, dropWhile (\<lambda>c. \<not> is_delim c) rest))"

definition checknetloc :: "pylib \<Rightarrow> string \<Rightarrow> bool" where
  "checknetloc L netloc \<longleftrightarrow> netloc = [] \<or> isascii netloc \<or> nfkc_ok L netloc"

definition urlsplit ::
  "pylib \<Rightarrow> string \<Rightarrow> exn + (string \<times> string \<times> string \<times> string \<times> string)" where
  "urlsplit L url0 =
     (let url = remove_unsafe (lstrip_c0 url0);
          (scheme, url) = split_scheme url;
          (netloc, url) = (if take 2 url = ''//'' then splitnetloc url else ('''', url));
          lb = CHR ''['' \<in> set netloc;
          rb = CHR '']'' \<in> set netloc
      in if (lb \<and> \<not> rb) \<or> (rb \<and> \<not> lb) then Inl ValueError
         else if lb \<and> rb \<and>
                 \<not> bracketed_host_ok L
                     (fst (split_once CHR '']'' (snd (split_once CHR ''['' netloc))))
         then Inl ValueError
         else
           let (url, fragment) =
                 (if CHR ''#'' \<in> set url then split_once CHR ''#'' url else (url, ''''));
               (url, query) =
                 (if CHR ''?'' \<in> set url then split_once CHR ''?'' url else (url, ''''))
           in if \<not> checknetloc L netloc then Inl ValueError
              else Inr (scheme, netloc, url, query, fragment))"

definition splitparams :: "string \<Rightarrow> string \<times> string" where
  "splitparams url =
     (if CHR ''/'' \<in> set url then
        let r = length url - 1 - length (takeWhile (\<lambda>c. c \<noteq> CHR ''/'') (rev url));
            tl_part = drop r url
        in if CHR '';'' \<in> set tl_part
           then (take r url @ fst (split_once CHR '';'' tl_part),
                 snd (split_once CHR '';'' tl_part))
           else (url, '''')
      else split_once CHR '';'' url)"

definition urlparse :: "pylib \<Rightarrow> string \<Rightarrow> exn + parse_result" where
  "urlparse L url0 =
     (case urlsplit L url0 of
        Inl e \<Rightarrow> Inl e
      | Inr (scheme, netloc, url, query, fragment) \<Rightarrow>
          let (url, params) =
                (if scheme \<in> set uses_params \<and> CHR '';'' \<in> set url
                 then splitparams url else (url, ''''))
          in Inr \<lparr>pr_scheme = scheme, pr_netloc = netloc, pr_path = url,
                   pr_params = params, pr_query = query, pr_fragment = fragment\<rparr>)"

subsection \<open>The process and the handler object\<close>

text \<open>
  What outlives a request is the process environment, the file system, the server object
  and standard error: the text written to \<open>sys.stderr\<close> so far or, where standard error is
  redirected to a file, that file among the others. The handler object is created anew
  for each request by the server. It holds what \<open>parse_request\<close> took from the request
  line, the client's address, and the two readings of the clock that
  \<open>date_time_string()\<close> and \<open>log_date_time_string()\<close> return while the request is handled.
  The head of the response is kept as what it says (the status, the header lines in
  their order, whether the blank line that ends them was sent), not as its bytes;
  \<open>wfile\<close> holds the bytes that are written after it.
\<close>

record 'srv world =
  os_environ :: "string \<rightharpoonup> ustr"
  files :: "string \<rightharpoonup> byte list"
  server_state :: 'srv
  stderr :: string
  stderr_file :: "string option"

record request =
  client_address :: string
  requestline :: string
  command :: string
  path :: string
  request_version :: string
  close_connection :: bool
  date_time_string :: string
  log_date_time_string :: string

record 'srv handler = request +
  world :: "'srv world"
  response_code :: "nat option"
  headers_buffer :: "(string \<times> string) list"
  headers_ended :: bool
  wfile :: "byte list"

type_synonym 'srv do_method = "'srv handler \<Rightarrow> outcome \<times> 'srv handler"

definition new_handler :: "'srv world \<Rightarrow> request \<Rightarrow> 'srv handler" where
  "new_handler w rq =
     \<lparr>client_address = client_address rq, requestline = requestline rq,
      command = command rq, path = path rq, request_version = request_version rq,
      close_connection = close_connection rq, date_time_string = date_time_string rq,
      log_date_time_string = log_date_time_string rq,
      world = w, response_code = None, headers_buffer = [], headers_ended = False,
      wfile = []\<rparr>"

subsection \<open>\<open>BaseHTTPRequestHandler\<close>: logging and the head of the response\<close>

text \<open>\<open>str(code)\<close> for the status, and \<open>f"{PORT}"\<close> in \<open>main\<close>.\<close>

fun decimal :: "nat \<Rightarrow> string" where
  "decimal n =
     (if n < 10 then [char_of (48 + n)]
      else decimal (n div 10) @ [char_of (48 + n mod 10)])"

text \<open>
  \<open>_control_char_table\<close>: a control character becomes \<open>\xNN\<close> with two lower-case
  hexadecimal digits, a backslash becomes two.
\<close>

definition control_char :: "char \<Rightarrow> string" where
  "control_char c =
     (let n = (of_char c :: nat) in
      if n < 0x20 \<or> (0x7F \<le> n \<and> n < 0xA0)
      then [CHR 0x5C, CHR ''x'', ''0123456789abcdef'' ! (n div 16),
            ''0123456789abcdef'' ! (n mod 16)]
      else if c = CHR 0x5C then [CHR 0x5C, CHR 0x5C]
      else [c])"

definition stderr_write :: "pylib \<Rightarrow> string \<Rightarrow> 'srv world \<Rightarrow> 'srv world" where
  "stderr_write L text w =
     (case stderr_file w of
        None \<Rightarrow> w\<lparr>stderr := stderr w @ text\<rparr>
      | Some f \<Rightarrow>
          w\<lparr>files := (files w)(f \<mapsto>
               (case files w f of None \<Rightarrow> [] | Some old \<Rightarrow> old) @ stderr_encode L text)\<rparr>)"

definition log_message :: "pylib \<Rightarrow> string \<Rightarrow> 'srv handler \<Rightarrow> 'srv handler" where
  "log_message L message self =
     self\<lparr>world :=
       stderr_write L
         (client_address self @ '' - - ['' @ log_date_time_string self @ ''] ''
            @ concat (map control_char message) @ [CHR 0x0A])
         (world self)\<rparr>"

definition log_request :: "pylib \<Rightarrow> nat \<Rightarrow> 'srv handler \<Rightarrow> 'srv handler" where
  "log_request L code self =
     log_message L
       ([CHR 0x22] @ requestline self @ [CHR 0x22] @ '' '' @ decimal code @ '' -'') self"

text \<open>
  The three methods that build the head do nothing for a request of version
  \<open>HTTP/0.9\<close> (a request line of two words), which is answered by a body alone.
  The comparisons of \<open>send_header\<close> are on \<open>keyword.lower()\<close> and \<open>value.lower()\<close>; among
  the 256 characters of these strings only the ASCII capitals have an ASCII lower case.
\<close>

definition send_response_only :: "nat \<Rightarrow> 'srv handler \<Rightarrow> 'srv handler" where
  "send_response_only code self =
     (if request_version self \<noteq> ''HTTP/0.9'' then self\<lparr>response_code := Some code\<rparr>
      else self)"

definition send_header :: "string \<Rightarrow> string \<Rightarrow> 'srv handler \<Rightarrow> 'srv handler" where
  "send_header keyword val self =
     (let self =
            (if request_version self \<noteq> ''HTTP/0.9''
             then self\<lparr>headers_buffer := headers_buffer self @ [(keyword, val)]\<rparr>
             else self)
      in if map ascii_lower keyword = ''connection'' then
           (if map ascii_lower val = ''close'' then self\<lparr>close_connection := True\<rparr>
            else if map ascii_lower val = ''keep-alive'' then self\<lparr>close_connection := False\<rparr>
            else self)
         else self)"

definition send_response :: "pylib \<Rightarrow> nat \<Rightarrow> 'srv handler \<Rightarrow> 'srv handler" where
  "send_response L code self =
     (let self = log_request L code self;
          self = send_response_only code self;
          self = send_header ''Server'' (version_string L) self;
          self = send_header ''Date'' (date_time_string self) self
      in self)"

definition end_headers :: "'srv handler \<Rightarrow> 'srv handler" where
  "end_headers self =
     (if request_version self \<noteq> ''HTTP/0.9'' then self\<lparr>headers_ended := True\<rparr> else self)"

definition wfile_write :: "byte list \<Rightarrow> 'srv handler \<Rightarrow> 'srv handler" where
  "wfile_write bs self = self\<lparr>wfile := wfile self @ bs\<rparr>"

definition environ_get :: "(string \<rightharpoonup> ustr) \<Rightarrow> string \<Rightarrow> ustr \<Rightarrow> ustr" where
  "environ_get env name dflt = (case env name of None \<Rightarrow> dflt | Some v \<Rightarrow> v)"

subsection \<open>The base class\<close>

text \<open>
  \<open>SimpleHTTPRequestHandler\<close> is given by the \<open>do_*\<close> methods it defines (in CPython,
  \<open>do_GET\<close> and \<open>do_HEAD\<close>) and by \<open>send_error\<close>. \<open>super().do_GET()\<close> looks the method up
  in the base class when it is called. No method of the base class calls \<open>do_GET\<close> on
  the handler object, so an inherited method does not reach the override.
\<close>

record 'srv base =
  base_methods :: "string \<rightharpoonup> 'srv do_method"
  send_error :: "nat \<Rightarrow> 'srv do_method"

definition super_do_GET :: "'srv base \<Rightarrow> 'srv do_method" where
  "super_do_GET B self =
     (case base_methods B ''do_GET'' of
        None \<Rightarrow> (Raised AttributeError, self)
      | Some m \<Rightarrow> m self)"

subsection \<open>\<open>WeatherHandler\<close>\<close>

definition config_content :: "ustr \<Rightarrow> ustr" where
  "config_content api_key =
     str (''window.RAPIDAPI_KEY = '' @ [CHR 0x27]) @ api_key @ str (CHR 0x27 # '';'')"

definition do_GET :: "pylib \<Rightarrow> 'srv base \<Rightarrow> 'srv do_method" where
  "do_GET L B self =
     (case urlparse L (path self) of
        Inl e \<Rightarrow> (Raised e, self)
      | Inr parsed_path \<Rightarrow>
          if pr_path parsed_path = ''/config.js'' then
            let self = send_response L 200 self;
                self = send_header ''Content-type'' ''application/javascript'' self;
                self = send_header ''Cache-Control'' ''no-cache'' self;
                self = end_headers self;
                api_key = environ_get (os_environ (world self)) ''RAPIDAPI_KEY''
                            (str ''YOUR_RAPIDAPI_KEY_HERE'')
            in (case encode_utf8 (config_content api_key) of
                  Inl e \<Rightarrow> (Raised e, self)
                | Inr bs \<Rightarrow> (Returned, wfile_write bs self))
          else super_do_GET B self)"

text \<open>
  The class statement defines \<open>do_GET\<close> and nothing else; every other attribute is
  inherited.
\<close>

definition WeatherHandler :: "pylib \<Rightarrow> 'srv base \<Rightarrow> 'srv base" where
  "WeatherHandler L B = B\<lparr>base_methods := (base_methods B)(''do_GET'' \<mapsto> do_GET L B)\<rparr>"

text \<open>
  How \<open>BaseHTTPRequestHandler.handle_one_request\<close> calls a handler class once the request
  line is parsed: the method is looked up by name, and a missing one is answered with
  \<open>501\<close>.
\<close>

definition dispatch :: "'srv base \<Rightarrow> 'srv do_method" where
  "dispatch cls self =
     (case base_methods cls (''do_'' @ command self) of
        None \<Rightarrow> send_error cls 501 self
      | Some m \<Rightarrow> m self)"

subsection \<open>\<open>main\<close> and the server loop\<close>

text \<open>
  \<open>socketserver.TCPServer\<close> binds and listens when it is constructed (the operating system
  decides whether the address can be bound: a parameter), and \<open>serve_forever\<close> handles one
  request after the other. The loop is driven by what arrives: a request, or the
  interruption of the process from outside. An exception raised by a handler is caught by
  the server (\<open>except Exception\<close> in \<open>_handle_request_noblock\<close>), which goes on serving;
  \<open>KeyboardInterrupt\<close> is not, and leaves the loop and \<open>main\<close>. With no input left the
  loop is waiting for the next connection.
\<close>

datatype event = Incoming request | Interrupt

record 'srv server =
  server_address :: "string \<times> nat"
  RequestHandlerClass :: "'srv base"

datatype 'srv loop =
  Waiting "'srv world" "(outcome \<times> 'srv handler) list"
| Interrupted "'srv world" "(outcome \<times> 'srv handler) list"

fun serve_forever ::
  "'srv server \<Rightarrow> event list \<Rightarrow> 'srv world \<Rightarrow> (outcome \<times> 'srv handler) list \<Rightarrow> 'srv loop" where
  "serve_forever srv [] w handled = Waiting w handled"
| "serve_forever srv (Interrupt # evs) w handled = Interrupted w handled"
| "serve_forever srv (Incoming rq # evs) w handled =
     (let r = dispatch (RequestHandlerClass srv) (new_handler w rq)
      in serve_forever srv evs (world (snd r)) (handled @ [r]))"

fun is_Interrupted :: "'srv loop \<Rightarrow> bool" where
  "is_Interrupted (Interrupted w handled) = True"
| "is_Interrupted (Waiting w handled) = False"

fun handled_requests :: "'srv loop \<Rightarrow> (outcome \<times> 'srv handler) list" where
  "handled_requests (Interrupted w handled) = handled"
| "handled_requests (Waiting w handled) = handled"

fun world_of :: "'srv loop \<Rightarrow> 'srv world" where
  "world_of (Interrupted w handled) = w"
| "world_of (Waiting w handled) = w"

definition main ::
  "pylib \<Rightarrow> 'srv base \<Rightarrow> (string \<times> nat \<Rightarrow> bool) \<Rightarrow> event list \<Rightarrow> 'srv world
     \<Rightarrow> exn + ('srv server \<times> string list \<times> 'srv loop)" where
  "main L B can_bind evs w =
     (let PORT = 5000;
          address = ('''', PORT)
      in if \<not> can_bind address then Inl OSError
         else
           let httpd = \<lparr>server_address = address,
                        RequestHandlerClass = WeatherHandler L B\<rparr>;
               stdout = [''Serving weather app at http://localhost:'' @ decimal PORT]
           in Inr (httpd, stdout, serve_forever httpd evs w []))"

subsection \<open>Concrete collaborators and inputs\<close>

text \<open>
  A library whose two parametrised checks accept everything and whose standard error
  writes one byte for each character, and a stand-in for the static file server: it
  answers \<open>200\<close> with the bytes of the file stored under the request target, and \<open>404\<close>
  when there is none. The requests are those that \<open>parse_request\<close> makes of the request
  lines \<open>GET target HTTP/1.1\<close> and \<open>GET target\<close>.
\<close>

definition lib0 :: pylib where
  "lib0 = \<lparr>bracketed_host_ok = (\<lambda>h. True), nfkc_ok = (\<lambda>n. True),
           version_string = ''SimpleHTTP/0.6 Python/3.11.10'',
           stderr_encode = map of_char\<rparr>"

definition static_do_GET :: "unit do_method" where
  "static_do_GET self =
     (case files (world self) (path self) of
        None \<Rightarrow> (Returned, send_response lib0 404 self)
      | Some bs \<Rightarrow> (Returned, wfile_write bs (end_headers (send_response lib0 200 self))))"

definition base0 :: "unit base" where
  "base0 = \<lparr>base_methods = [''do_GET'' \<mapsto> static_do_GET, ''do_HEAD'' \<mapsto> static_do_GET],
            send_error = (\<lambda>code self. (Returned, send_response lib0 code self))\<rparr>"

definition world0 :: "ustr option \<Rightarrow> unit world" where
  "world0 v =
     \<lparr>os_environ = (\<lambda>name. if name = ''RAPIDAPI_KEY'' then v else None),
      files = [''/index.html'' \<mapsto> [0x3C, 0x70, 0x3E]],
      server_state = (),
      stderr = '''',
      stderr_file = None\<rparr>"

definition world1 :: "unit world" where
  "world1 =
     \<lparr>os_environ = [''HOME'' \<mapsto> [0x2F], ''RAPIDAPI_KEY'' \<mapsto> [0x61]],
      files = Map.empty,
      server_state = (),
      stderr = '''',
      stderr_file = None\<rparr>"

definition request_1_1 :: "string \<Rightarrow> string \<Rightarrow> request" where
  "request_1_1 cmd target =
     \<lparr>client_address = ''127.0.0.1'',
      requestline = cmd @ '' '' @ target @ '' HTTP/1.1'',
      command = cmd, path = target, request_version = ''HTTP/1.1'',
      close_connection = False,
      date_time_string = ''Tue, 03 Nov 2026 14:40:00 GMT'',
      log_date_time_string = ''03/Nov/2026 14:40:00''\<rparr>"

definition request_0_9 :: "string \<Rightarrow> string \<Rightarrow> request" where
  "request_0_9 cmd target =
     \<lparr>client_address = ''127.0.0.1'',
      requestline = cmd @ '' '' @ target,
      command = cmd, path = target, request_version = ''HTTP/0.9'',
      close_connection = True,
      date_time_string = ''Tue, 03 Nov 2026 14:40:00 GMT'',
      log_date_time_string = ''03/Nov/2026 14:40:00''\<rparr>"

definition accept_bind :: "string \<times> nat \<Rightarrow> bool" where
  "accept_bind address = True"

definition config_js_parsed :: parse_result where
  "config_js_parsed =
     \<lparr>pr_scheme = '''', pr_netloc = '''', pr_path = ''/config.js'',
      pr_params = '''', pr_query = '''', pr_fragment = ''''\<rparr>"

definition config_js_v2_parsed :: parse_result where
  "config_js_v2_parsed =
     \<lparr>pr_scheme = '''', pr_netloc = '''', pr_path = ''/config.js'',
      pr_params = '''', pr_query = ''v=2'', pr_fragment = ''''\<rparr>"

subsection \<open>Names for what the statements speak of\<close>

text \<open>
  The key that a request finds in the process environment; the two headers that the
  handler itself sends (HTTP compares field names without regard to case: \<open>Content-type\<close>
  is the \<open>Content-Type\<close> field); the line that \<open>send_response\<close> logs for a status; and the
  handler object once the head of the generated response is sent: the line is logged for
  every request, the status and the four headers are there unless the request is of
  version \<open>HTTP/0.9\<close>.
\<close>

definition current_key :: "'srv world \<Rightarrow> ustr" where
  "current_key w = environ_get (os_environ w) ''RAPIDAPI_KEY'' (str ''YOUR_RAPIDAPI_KEY_HERE'')"

definition config_headers :: "(string \<times> string) list" where
  "config_headers =
     [(''Content-type'', ''application/javascript''), (''Cache-Control'', ''no-cache'')]"

definition log_entry :: "'srv handler \<Rightarrow> nat \<Rightarrow> string" where
  "log_entry self code =
     client_address self @ '' - - ['' @ log_date_time_string self @ ''] ''
       @ concat (map control_char
           ([CHR 0x22] @ requestline self @ [CHR 0x22] @ '' '' @ decimal code @ '' -''))
       @ [CHR 0x0A]"

definition config_head :: "pylib \<Rightarrow> 'srv handler \<Rightarrow> 'srv handler" where
  "config_head L self =
     (if request_version self = ''HTTP/0.9''
      then self\<lparr>world := stderr_write L (log_entry self 200) (world self)\<rparr>
      else self\<lparr>world := stderr_write L (log_entry self 200) (world self),
                response_code := Some 200,
                headers_buffer :=
                  headers_buffer self
                    @ [(''Server'', version_string L), (''Date'', date_time_string self),
                       (''Content-type'', ''application/javascript''),
                       (''Cache-Control'', ''no-cache'')],
                headers_ended := True\<rparr>)"

text \<open>The octets of an encoded code point as numbers.\<close>

definition utf8_nats :: "nat \<Rightarrow> nat list" where
  "utf8_nats c =
     (if c < 0x80 then [c]
      else if c < 0x800 then [0xC0 + c div 64, 0x80 + c mod 64]
      else if c < 0x10000 then
        [0xE0 + c div 4096, 0x80 + c div 64 mod 64, 0x80 + c mod 64]
      else
        [0xF0 + c div 262144, 0x80 + c div 4096 mod 64,
         0x80 + c div 64 mod 64, 0x80 + c mod 64])"

definition non_ascii :: "nat \<Rightarrow> bool" where
  "non_ascii c \<longleftrightarrow> 128 \<le> c"

text \<open>A Python \<open>str\<close> that is a text: each code point is a Unicode scalar value.\<close>

definition scalar_values :: "ustr \<Rightarrow> bool" where
  "scalar_values s \<longleftrightarrow> list_all (\<lambda>c. c < 0x110000 \<and> \<not> is_surrogate c) s"

definition effective_key :: "ustr option \<Rightarrow> ustr" where
  "effective_key v = (case v of None \<Rightarrow> str ''YOUR_RAPIDAPI_KEY_HERE'' | Some k \<Rightarrow> k)"

definition not_interrupt :: "event \<Rightarrow> bool" where
  "not_interrupt e \<longleftrightarrow> e \<noteq> Interrupt"

text \<open>
  A request target that is a plain absolute path: it starts with one slash and has none
  of the characters that \<open>urlparse\<close> strips or splits at.
\<close>

definition plain_path :: "string \<Rightarrow> bool" where
  "plain_path p \<longleftrightarrow>
     take 1 p = ''/'' \<and> take 2 p \<noteq> ''//''
     \<and> list_all (\<lambda>c. c \<noteq> CHR ''?'' \<and> c \<noteq> CHR ''#'' \<and> c \<noteq> CHR '';''
                    \<and> c \<noteq> CHR 0x09 \<and> c \<noteq> CHR 0x0D \<and> c \<noteq> CHR 0x0A) p"

section \<open>Properties\<close>

subsection \<open>Parsing the request target\<close>

lemmas urlparse_unfold =
  urlparse_def urlsplit_def lstrip_c0_def remove_unsafe_def split_scheme_def
  splitnetloc_def is_ascii_alpha_def checknetloc_def split_once_def uses_params_def
  scheme_chars_def ascii_lower_def Let_def

lemma urlparse_config_js:
  "\<exists>u. urlparse L ''/config.js'' = Inr u \<and> pr_path u = ''/config.js''"
  by (simp add: urlparse_unfold)

lemma urlparse_config_js_query:
  "\<exists>u. urlparse L (''/config.js?'' @ q) = Inr u \<and> pr_path u = ''/config.js''"
  by (simp add: urlparse_unfold)

lemma urlparse_index_html:
  "\<exists>u. urlparse L ''/index.html'' = Inr u \<and> pr_path u = ''/index.html''"
  by (simp add: urlparse_unfold)

lemma urlparse_unmatched_bracket: "urlparse L ''http://[/x'' = Inl ValueError"
  by (simp add: urlparse_unfold)

lemma urlparse_config_js_lib0: "urlparse lib0 ''/config.js'' = Inr config_js_parsed"
  by (simp add: urlparse_unfold config_js_parsed_def)

lemma urlparse_plain_path:
  assumes "plain_path p"
  shows "urlparse L p =
           Inr \<lparr>pr_scheme = '''', pr_netloc = '''', pr_path = p,
                 pr_params = '''', pr_query = '''', pr_fragment = ''''\<rparr>"
proof -
  from assms obtain r where p: "p = CHR ''/'' # r"
    by (cases p) (auto simp: plain_path_def)
  from assms have no: "CHR ''?'' \<notin> set p" "CHR ''#'' \<notin> set p" "CHR '';'' \<notin> set p"
    and safe: "\<forall>c \<in> set p. c \<noteq> CHR 0x09 \<and> c \<noteq> CHR 0x0D \<and> c \<noteq> CHR 0x0A"
    and two: "take 2 p \<noteq> ''//''"
    by (auto simp: plain_path_def list_all_iff)
  have strip: "lstrip_c0 p = p"
    by (simp add: lstrip_c0_def p)
  have unsafe: "remove_unsafe p = p"
    using safe by (simp add: remove_unsafe_def filter_id_conv)
  have scheme: "split_scheme p = ('''', p)"
    by (simp add: split_scheme_def p is_ascii_alpha_def)
  have split: "urlsplit L p = Inr ('''', '''', p, '''', '''')"
    using no two by (simp add: urlsplit_def strip unsafe scheme checknetloc_def)
  show ?thesis
    using no by (simp add: urlparse_def split)
qed

subsection \<open>Selectors of a new handler object and of the two request lines\<close>

lemma new_handler_sel [simp]:
  "client_address (new_handler w rq) = client_address rq"
  "requestline (new_handler w rq) = requestline rq"
  "command (new_handler w rq) = command rq"
  "path (new_handler w rq) = path rq"
  "request_version (new_handler w rq) = request_version rq"
  "close_connection (new_handler w rq) = close_connection rq"
  "date_time_string (new_handler w rq) = date_time_string rq"
  "log_date_time_string (new_handler w rq) = log_date_time_string rq"
  "world (new_handler w rq) = w"
  "response_code (new_handler w rq) = None"
  "headers_buffer (new_handler w rq) = []"
  "headers_ended (new_handler w rq) = False"
  "wfile (new_handler w rq) = []"
  by (simp_all add: new_handler_def)

lemma request_1_1_sel [simp]:
  "client_address (request_1_1 cmd t) = ''127.0.0.1''"
  "requestline (request_1_1 cmd t) = cmd @ '' '' @ t @ '' HTTP/1.1''"
  "command (request_1_1 cmd t) = cmd"
  "path (request_1_1 cmd t) = t"
  "request_version (request_1_1 cmd t) = ''HTTP/1.1''"
  "date_time_string (request_1_1 cmd t) = ''Tue, 03 Nov 2026 14:40:00 GMT''"
  "log_date_time_string (request_1_1 cmd t) = ''03/Nov/2026 14:40:00''"
  by (simp_all add: request_1_1_def)

lemma request_0_9_sel [simp]:
  "client_address (request_0_9 cmd t) = ''127.0.0.1''"
  "requestline (request_0_9 cmd t) = cmd @ '' '' @ t"
  "command (request_0_9 cmd t) = cmd"
  "path (request_0_9 cmd t) = t"
  "request_version (request_0_9 cmd t) = ''HTTP/0.9''"
  "date_time_string (request_0_9 cmd t) = ''Tue, 03 Nov 2026 14:40:00 GMT''"
  "log_date_time_string (request_0_9 cmd t) = ''03/Nov/2026 14:40:00''"
  by (simp_all add: request_0_9_def)

subsection \<open>Decimal numerals and the log line\<close>

lemma decimal_5000: "decimal 5000 = ''5000''"
  by (simp add: char_of_eq_iff)

lemma decimal_status:
  "decimal 200 = ''200''" "decimal 404 = ''404''" "decimal 501 = ''501''"
  by (simp_all add: char_of_eq_iff)

lemma control_char_plain:
  assumes "list_all (\<lambda>c. (0x20 :: nat) \<le> of_char c \<and> (of_char c :: nat) < 0x7F \<and> c \<noteq> CHR 0x5C) s"
  shows "concat (map control_char s) = s"
  using assms by (induction s) (auto simp: control_char_def)

lemma log_entry_plain:
  assumes "list_all (\<lambda>c. (0x20 :: nat) \<le> of_char c \<and> (of_char c :: nat) < 0x7F \<and> c \<noteq> CHR 0x5C)
             (requestline self @ decimal code)"
  shows "log_entry self code =
           client_address self @ '' - - ['' @ log_date_time_string self @ ''] ''
             @ [CHR 0x22] @ requestline self @ [CHR 0x22] @ '' '' @ decimal code @ '' -''
             @ [CHR 0x0A]"
proof -
  from assms have
    "list_all (\<lambda>c. (0x20 :: nat) \<le> of_char c \<and> (of_char c :: nat) < 0x7F \<and> c \<noteq> CHR 0x5C)
       ([CHR 0x22] @ requestline self @ [CHR 0x22] @ '' '' @ decimal code @ '' -'')"
    by simp
  then have "concat (map control_char
                ([CHR 0x22] @ requestline self @ [CHR 0x22] @ '' '' @ decimal code @ '' -'')) =
             [CHR 0x22] @ requestline self @ [CHR 0x22] @ '' '' @ decimal code @ '' -''"
    by (rule control_char_plain)
  then show ?thesis
    unfolding log_entry_def by simp
qed

subsection \<open>Logging and the head of the generated response\<close>

lemma log_request_world:
  "log_request L code self = self\<lparr>world := stderr_write L (log_entry self code) (world self)\<rparr>"
  by (simp add: log_request_def log_message_def log_entry_def)

lemma os_environ_stderr_write [simp]: "os_environ (stderr_write L text w) = os_environ w"
  and server_state_stderr_write [simp]: "server_state (stderr_write L text w) = server_state w"
  and stderr_file_stderr_write [simp]: "stderr_file (stderr_write L text w) = stderr_file w"
  by (simp_all add: stderr_write_def split: option.split)

lemma send_header_plain:
  assumes "length keyword \<noteq> 10"
  shows "send_header keyword val self =
           (if request_version self \<noteq> ''HTTP/0.9''
            then self\<lparr>headers_buffer := headers_buffer self @ [(keyword, val)]\<rparr>
            else self)"
proof -
  have "map ascii_lower keyword \<noteq> ''connection''"
  proof
    assume "map ascii_lower keyword = ''connection''"
    then have "length (map ascii_lower keyword) = length ''connection''"
      by (rule arg_cong)
    with assms show False by simp
  qed
  then show ?thesis
    unfolding send_header_def by (simp only: Let_def if_False)
qed

lemma config_head_sent:
  "end_headers
     (send_header ''Cache-Control'' ''no-cache''
        (send_header ''Content-type'' ''application/javascript'' (send_response L 200 self))) =
   config_head L self"
proof (cases "request_version self = ''HTTP/0.9''")
  case True
  then show ?thesis
    by (simp add: config_head_def end_headers_def send_header_plain send_response_def
        send_response_only_def log_request_world)
next
  case False
  then show ?thesis
    by (simp add: config_head_def end_headers_def send_header_plain send_response_def
        send_response_only_def log_request_world)
qed

lemma send_response_sent:
  "send_response L code self =
     (if request_version self = ''HTTP/0.9''
      then self\<lparr>world := stderr_write L (log_entry self code) (world self)\<rparr>
      else self\<lparr>world := stderr_write L (log_entry self code) (world self),
                response_code := Some code,
                headers_buffer :=
                  headers_buffer self
                    @ [(''Server'', version_string L), (''Date'', date_time_string self)]\<rparr>)"
  by (simp add: send_header_plain send_response_def send_response_only_def log_request_world)

lemma config_head_frame [simp]:
  "wfile (config_head L self) = wfile self"
  "path (config_head L self) = path self"
  "command (config_head L self) = command self"
  "requestline (config_head L self) = requestline self"
  "request_version (config_head L self) = request_version self"
  "close_connection (config_head L self) = close_connection self"
  "world (config_head L self) = stderr_write L (log_entry self 200) (world self)"
  by (simp_all add: config_head_def)

lemma current_key_stderr_write [simp]: "current_key (stderr_write L text w) = current_key w"
  by (simp add: current_key_def)

subsection \<open>The two branches of \<open>do_GET\<close>\<close>

lemma do_GET_config:
  assumes "urlparse L (path self) = Inr u" and "pr_path u = ''/config.js''"
  shows "do_GET L B self =
           (case encode_utf8 (config_content (current_key (world self))) of
              Inl e \<Rightarrow> (Raised e, config_head L self)
            | Inr bs \<Rightarrow> (Returned, (config_head L self)\<lparr>wfile := wfile self @ bs\<rparr>))"
proof -
  have "do_GET L B self =
          (let self' = end_headers
                 (send_header ''Cache-Control'' ''no-cache''
                    (send_header ''Content-type'' ''application/javascript''
                       (send_response L 200 self)))
           in case encode_utf8 (config_content (current_key (world self'))) of
                Inl e \<Rightarrow> (Raised e, self')
              | Inr bs \<Rightarrow> (Returned, wfile_write bs self'))"
    using assms by (simp add: do_GET_def Let_def current_key_def)
  then show ?thesis
    by (simp add: config_head_sent wfile_write_def Let_def split: sum.split)
qed

lemma do_GET_other:
  assumes "urlparse L (path self) = Inr u" and "pr_path u \<noteq> ''/config.js''"
  shows "do_GET L B self = super_do_GET B self"
  using assms by (simp add: do_GET_def)

lemma do_GET_raises:
  assumes "urlparse L (path self) = Inl e"
  shows "do_GET L B self = (Raised e, self)"
  using assms by (simp add: do_GET_def)

lemma dispatch_WeatherHandler_GET:
  "command self = ''GET'' \<Longrightarrow> dispatch (WeatherHandler L B) self = do_GET L B self"
  by (simp add: dispatch_def WeatherHandler_def)

subsection \<open>The encoder\<close>

lemma encode_utf8_append:
  "encode_utf8 (a @ b) =
     (case encode_utf8 a of
        Inl e \<Rightarrow> Inl e
      | Inr x \<Rightarrow> (case encode_utf8 b of Inl e \<Rightarrow> Inl e | Inr y \<Rightarrow> Inr (x @ y)))"
  by (auto simp: encode_utf8_def list_ex_iff)

lemma list_ex_surrogate_str_ascii:
  "list_all (\<lambda>c. (of_char c :: nat) < 128) cs \<Longrightarrow> \<not> list_ex is_surrogate (str cs)"
  by (induction cs) (auto simp: str_def is_surrogate_def)

lemma encode_config_content:
  assumes "\<not> list_ex is_surrogate k"
  shows "encode_utf8 (config_content k) =
           Inr (concat (map utf8_char (str (''window.RAPIDAPI_KEY = '' @ [CHR 0x27])))
                @ concat (map utf8_char k)
                @ concat (map utf8_char (str (CHR 0x27 # '';''))))"
proof -
  have "\<not> list_ex is_surrogate (str (''window.RAPIDAPI_KEY = '' @ [CHR 0x27]))"
    by (rule list_ex_surrogate_str_ascii) simp
  moreover have "\<not> list_ex is_surrogate (str (CHR 0x27 # '';''))"
    by (rule list_ex_surrogate_str_ascii) simp
  ultimately show ?thesis
    using assms by (simp add: config_content_def encode_utf8_append) (simp add: encode_utf8_def)
qed

lemma encode_config_content_surrogate:
  assumes "list_ex is_surrogate k"
  shows "encode_utf8 (config_content k) = Inl UnicodeEncodeError"
  using assms by (auto simp: config_content_def encode_utf8_def list_ex_iff)

lemma utf8_char_examples:
  "utf8_char 0x41 = [0x41]" "utf8_char 0xE9 = [0xC3, 0xA9]"
  "utf8_char 0x20AC = [0xE2, 0x82, 0xAC]" "utf8_char 0x1F600 = [0xF0, 0x9F, 0x98, 0x80]"
  by (simp_all add: utf8_char_def)

lemma fallback_not_surrogate: "\<not> list_ex is_surrogate (str ''YOUR_RAPIDAPI_KEY_HERE'')"
  by (rule list_ex_surrogate_str_ascii) simp

lemma ascii_bytes:
  "list_all (\<lambda>c. (of_char c :: nat) < 128) cs \<Longrightarrow>
   concat (map utf8_char (str cs)) = map of_char cs"
  by (induction cs) (simp_all add: str_def utf8_char_def of_nat_of_char)

text \<open>
  The encoding can be read back: the encodings of two code points below \<open>0x110000\<close> that
  start two byte strings are the same only for the same code point.
\<close>

lemma utf8_char_not_Nil: "utf8_char c \<noteq> []"
  by (simp add: utf8_char_def)

lemma unat_byte: "n < 256 \<Longrightarrow> unat (of_nat n :: byte) = n"
  by (simp add: unat_of_nat)

lemma unat_utf8_char:
  assumes "c < 0x110000"
  shows "map unat (utf8_char c) = utf8_nats c"
proof -
  have m: "unat (of_nat (0x80 + n mod 64) :: byte) = 0x80 + n mod 64" for n :: nat
    by (rule unat_byte) simp
  consider (1) "c < 0x80" | (2) "\<not> c < 0x80" "c < 0x800"
    | (3) "\<not> c < 0x80" "\<not> c < 0x800" "c < 0x10000"
    | (4) "\<not> c < 0x80" "\<not> c < 0x800" "\<not> c < 0x10000"
    by blast
  then show ?thesis
  proof cases
    case 1
    then have "unat (of_nat c :: byte) = c"
      by (intro unat_byte) simp
    with 1 show ?thesis
      unfolding utf8_char_def utf8_nats_def by (simp only: if_True list.map)
  next
    case 2
    then have "unat (of_nat (0xC0 + c div 64) :: byte) = 0xC0 + c div 64"
      by (intro unat_byte) simp
    with 2 show ?thesis
      unfolding utf8_char_def utf8_nats_def by (simp only: if_True if_False list.map m)
  next
    case 3
    then have "unat (of_nat (0xE0 + c div 4096) :: byte) = 0xE0 + c div 4096"
      by (intro unat_byte) simp
    with 3 show ?thesis
      unfolding utf8_char_def utf8_nats_def by (simp only: if_True if_False list.map m)
  next
    case 4
    from assms have "unat (of_nat (0xF0 + c div 262144) :: byte) = 0xF0 + c div 262144"
      by (intro unat_byte) simp
    with 4 show ?thesis
      unfolding utf8_char_def utf8_nats_def by (simp only: if_True if_False list.map m)
  qed
qed

lemma utf8_nats_inj:
  assumes "utf8_nats c @ xs = utf8_nats d @ ys"
  shows "c = d"
proof -
  have r2: "n = 64 * (n div 64) + n mod 64" for n :: nat
    by simp
  have r3: "n = 4096 * (n div 4096) + 64 * (n div 64 mod 64) + n mod 64" for n :: nat
  proof -
    have "n div 4096 = n div 64 div 64"
      by (simp add: div_mult2_eq [symmetric])
    then have "n div 64 = 64 * (n div 4096) + n div 64 mod 64"
      by simp
    with r2 [of n] show ?thesis
      by linarith
  qed
  have r4: "n = 262144 * (n div 262144) + 4096 * (n div 4096 mod 64)
                + 64 * (n div 64 mod 64) + n mod 64" for n :: nat
  proof -
    have "n div 262144 = n div 4096 div 64"
      by (simp add: div_mult2_eq [symmetric])
    then have "n div 4096 = 64 * (n div 262144) + n div 4096 mod 64"
      by simp
    with r3 [of n] show ?thesis
      by linarith
  qed
  have lead: "hd (utf8_nats n) < 0x80 \<longleftrightarrow> n < 0x80"
    "hd (utf8_nats n) < 0xE0 \<longleftrightarrow> n < 0x800"
    "hd (utf8_nats n) < 0xF0 \<longleftrightarrow> n < 0x10000" for n
    by (auto simp: utf8_nats_def)
  from assms have h: "hd (utf8_nats c) = hd (utf8_nats d)"
    by (metis hd_append2 list.simps(3) utf8_nats_def)
  from h lead [of c] lead [of d] have same:
    "c < 0x80 \<longleftrightarrow> d < 0x80" "c < 0x800 \<longleftrightarrow> d < 0x800" "c < 0x10000 \<longleftrightarrow> d < 0x10000"
    by simp_all
  consider (1) "c < 0x80" | (2) "0x80 \<le> c" "c < 0x800" | (3) "0x800 \<le> c" "c < 0x10000"
    | (4) "0x10000 \<le> c"
    by linarith
  then show ?thesis
  proof cases
    case 1
    with assms same show ?thesis by (simp add: utf8_nats_def)
  next
    case 2
    with assms same have "c div 64 = d div 64" "c mod 64 = d mod 64"
      by (simp_all add: utf8_nats_def)
    with r2 [of c] r2 [of d] show ?thesis by simp
  next
    case 3
    with assms same have "c div 4096 = d div 4096" "c div 64 mod 64 = d div 64 mod 64"
      "c mod 64 = d mod 64"
      by (simp_all add: utf8_nats_def)
    with r3 [of c] r3 [of d] show ?thesis by simp
  next
    case 4
    with assms same have "c div 262144 = d div 262144"
      "c div 4096 mod 64 = d div 4096 mod 64" "c div 64 mod 64 = d div 64 mod 64"
      "c mod 64 = d mod 64"
      by (simp_all add: utf8_nats_def)
    with r4 [of c] r4 [of d] show ?thesis by simp
  qed
qed

lemma utf8_char_inj:
  assumes "c < 0x110000" and "d < 0x110000"
    and "utf8_char c @ xs = utf8_char d @ ys"
  shows "c = d \<and> xs = ys"
proof -
  from assms(3) have "map unat (utf8_char c @ xs) = map unat (utf8_char d @ ys)"
    by simp
  then have "utf8_nats c @ map unat xs = utf8_nats d @ map unat ys"
    by (simp add: unat_utf8_char assms(1,2))
  then have "c = d"
    by (rule utf8_nats_inj)
  with assms(3) show ?thesis by simp
qed

lemma concat_utf8_inj:
  assumes "\<forall>c \<in> set k. c < 0x110000" and "\<forall>c \<in> set k'. c < 0x110000"
    and "concat (map utf8_char k) = concat (map utf8_char k')"
  shows "k = k'"
  using assms
proof (induction k arbitrary: k')
  case Nil
  then show ?case
    by (cases k') (simp_all add: utf8_char_not_Nil)
next
  case (Cons c cs)
  show ?case
  proof (cases k')
    case Nil
    with Cons.prems show ?thesis
      by (simp add: utf8_char_not_Nil)
  next
    case (Cons d ds)
    with Cons.prems have "utf8_char c @ concat (map utf8_char cs) =
        utf8_char d @ concat (map utf8_char ds)"
      and "c < 0x110000" and "d < 0x110000"
      by simp_all
    then have "c = d" and "concat (map utf8_char cs) = concat (map utf8_char ds)"
      using utf8_char_inj by blast+
    with Cons.IH [of ds] Cons.prems \<open>k' = d # ds\<close> show ?thesis
      by simp
  qed
qed

lemma config_body_inj:
  assumes "\<forall>c \<in> set k. c < 0x110000" and "\<forall>c \<in> set k'. c < 0x110000"
    and "concat (map utf8_char (str (''window.RAPIDAPI_KEY = '' @ [CHR 0x27])))
           @ concat (map utf8_char k) @ concat (map utf8_char (str (CHR 0x27 # '';''))) =
         concat (map utf8_char (str (''window.RAPIDAPI_KEY = '' @ [CHR 0x27])))
           @ concat (map utf8_char k') @ concat (map utf8_char (str (CHR 0x27 # '';'')))"
  shows "k = k'"
proof -
  let ?s = "str (CHR 0x27 # '';'')"
  from assms(3) have "concat (map utf8_char (k @ ?s)) = concat (map utf8_char (k' @ ?s))"
    by simp
  moreover have "\<forall>c \<in> set (k @ ?s). c < 0x110000" "\<forall>c \<in> set (k' @ ?s). c < 0x110000"
    using assms(1,2) by (auto simp: str_def)
  ultimately have "k @ ?s = k' @ ?s"
    by (rule concat_utf8_inj [rotated 2])
  then show ?thesis by simp
qed

subsection \<open>The server loop\<close>

lemma serve_forever_interrupted:
  "is_Interrupted (serve_forever srv evs w handled) \<longleftrightarrow> Interrupt \<in> set evs"
proof (induction evs arbitrary: w handled)
  case Nil
  show ?case by simp
next
  case (Cons ev evs)
  show ?case by (cases ev) (simp_all add: Cons.IH Let_def)
qed
lemma dispatch_WeatherHandler_other:
  "command self \<noteq> ''GET'' \<Longrightarrow> dispatch (WeatherHandler L B) self = dispatch B self"
  by (simp add: dispatch_def WeatherHandler_def split: option.split)

lemma files_stderr_write:
  "stderr_file w = None \<Longrightarrow> files (stderr_write L text w) = files w"
  by (simp add: stderr_write_def)

lemma serve_forever_handled:
  "length (handled_requests (serve_forever srv evs w acc)) =
     length acc + length (takeWhile not_interrupt evs)
   \<and> take (length acc) (handled_requests (serve_forever srv evs w acc)) = acc
   \<and> (\<forall>i < length (takeWhile not_interrupt evs).
         \<exists>rq. evs ! i = Incoming rq
           \<and> handled_requests (serve_forever srv evs w acc) ! (length acc + i) =
             dispatch (RequestHandlerClass srv)
               (new_handler
                  (if i = 0 then w
                   else world (snd (handled_requests (serve_forever srv evs w acc)
                                      ! (length acc + i - 1))))
                  rq))
   \<and> world_of (serve_forever srv evs w acc) =
       (if takeWhile not_interrupt evs = [] then w
        else world (snd (last (handled_requests (serve_forever srv evs w acc)))))"
proof (induction evs arbitrary: w acc)
  case Nil
  show ?case by simp
next
  case (Cons ev evs)
  show ?case
  proof (cases ev)
    case Interrupt
    then show ?thesis by (simp add: not_interrupt_def)
  next
    case (Incoming rq)
    define r where "r = dispatch (RequestHandlerClass srv) (new_handler w rq)"
    define R where "R = handled_requests (serve_forever srv evs (world (snd r)) (acc @ [r]))"
    have step: "serve_forever srv (ev # evs) w acc =
                  serve_forever srv evs (world (snd r)) (acc @ [r])"
      by (simp add: Incoming r_def Let_def)
    have RR: "handled_requests (serve_forever srv (ev # evs) w acc) = R"
      by (simp only: step R_def)
    have tw: "takeWhile not_interrupt (ev # evs) = ev # takeWhile not_interrupt evs"
      by (simp add: Incoming not_interrupt_def)
    note IH = Cons.IH [of "world (snd r)" "acc @ [r]", folded R_def]
    from IH have len: "length R = Suc (length acc + length (takeWhile not_interrupt evs))"
      by simp
    from IH have pre: "take (Suc (length acc)) R = acc @ [r]"
      by simp
    have "take (length acc) (take (Suc (length acc)) R) = take (length acc) R"
      by (simp add: min_def)
    then have pre': "take (length acc) R = acc"
      unfolding pre by simp
    have "take (Suc (length acc)) R ! length acc = R ! length acc"
      by simp
    then have at: "R ! length acc = r"
      unfolding pre by simp
    have nth: "\<exists>rq'. (ev # evs) ! i = Incoming rq'
                 \<and> R ! (length acc + i) =
                   dispatch (RequestHandlerClass srv)
                     (new_handler
                        (if i = 0 then w else world (snd (R ! (length acc + i - 1)))) rq')"
      if "i < length (takeWhile not_interrupt (ev # evs))" for i
    proof (cases i)
      case 0
      then show ?thesis
        by (simp add: Incoming at r_def)
    next
      case (Suc k)
      with that tw have k: "k < length (takeWhile not_interrupt evs)"
        by simp
      from IH have "\<forall>j < length (takeWhile not_interrupt evs).
           \<exists>rq'. evs ! j = Incoming rq'
             \<and> R ! (length (acc @ [r]) + j) =
               dispatch (RequestHandlerClass srv)
                 (new_handler
                    (if j = 0 then world (snd r)
                     else world (snd (R ! (length (acc @ [r]) + j - 1)))) rq')"
        by (elim conjE)
      with k obtain rq' where rq': "evs ! k = Incoming rq'"
        "R ! (length (acc @ [r]) + k) =
           dispatch (RequestHandlerClass srv)
             (new_handler
                (if k = 0 then world (snd r)
                 else world (snd (R ! (length (acc @ [r]) + k - 1)))) rq')"
        by blast
      have w': "(if k = 0 then world (snd r)
                 else world (snd (R ! (length (acc @ [r]) + k - 1)))) =
                world (snd (R ! (length acc + k)))"
        by (cases k) (simp_all add: at)
      from rq'(2) have "R ! (length acc + Suc k) =
           dispatch (RequestHandlerClass srv) (new_handler (world (snd (R ! (length acc + k)))) rq')"
        unfolding w' by simp
      with rq'(1) show ?thesis
        by (simp add: Suc)
    qed
    have last: "world_of (serve_forever srv (ev # evs) w acc) = world (snd (last R))"
    proof (cases "takeWhile not_interrupt evs = []")
      case True
      with len have "length R = Suc (length acc)"
        by simp
      with pre have "R = acc @ [r]"
        by (metis order_refl take_all)
      moreover from IH True have "world_of (serve_forever srv evs (world (snd r)) (acc @ [r])) =
          world (snd r)"
        by simp
      ultimately show ?thesis
        by (simp add: step)
    next
      case False
      with IH have "world_of (serve_forever srv evs (world (snd r)) (acc @ [r])) =
          world (snd (last R))"
        by simp
      then show ?thesis
        by (simp add: step)
    qed
    show ?thesis
      unfolding RR
    proof (intro conjI allI impI)
      show "length R = length acc + length (takeWhile not_interrupt (ev # evs))"
        unfolding tw using len by simp
      show "take (length acc) R = acc"
        by (rule pre')
      show "\<exists>rq. (ev # evs) ! i = Incoming rq
              \<and> R ! (length acc + i) =
                dispatch (RequestHandlerClass srv)
                  (new_handler
                     (if i = 0 then w else world (snd (R ! (length acc + i - 1)))) rq)"
        if "i < length (takeWhile not_interrupt (ev # evs))" for i
        using that by (rule nth)
      show "world_of (serve_forever srv (ev # evs) w acc) =
              (if takeWhile not_interrupt (ev # evs) = [] then w else world (snd (last R)))"
        unfolding tw using last by simp
    qed
  qed
qed

subsection \<open>The claims\<close>

text \<open>
  C1 (what the code does where the claim holds and where it fails). The claim promises
  status 200 and the generated statement as body for every value of \<open>RAPIDAPI_KEY\<close>. With
  the value \<open>abc123\<close>, and with the variable unset, the request \<open>GET /config.js HTTP/1.1\<close>
  is answered so. Where the variable holds the byte \<open>0xFF\<close>, \<open>os.environ\<close> gives the lone
  surrogate \<open>U+DCFF\<close>: the handler logs the request, sends status 200 and the headers,
  ends the headers, and \<open>str.encode\<close> raises \<open>UnicodeEncodeError\<close> before any byte of the
  body is written.
\<close>

theorem do_GET_config_at_three_keys:
  "do_GET L B
     (new_handler
        \<lparr>os_environ = [''RAPIDAPI_KEY'' \<mapsto> str ''abc123''], files = fs, server_state = x,
         stderr = err, stderr_file = None\<rparr>
        (request_1_1 ''GET'' ''/config.js'')) =
   (Returned,
    (new_handler
       \<lparr>os_environ = [''RAPIDAPI_KEY'' \<mapsto> str ''abc123''], files = fs, server_state = x,
        stderr = err, stderr_file = None\<rparr>
       (request_1_1 ''GET'' ''/config.js''))
    \<lparr>world :=
       \<lparr>os_environ = [''RAPIDAPI_KEY'' \<mapsto> str ''abc123''], files = fs, server_state = x,
        stderr = err @ ''127.0.0.1 - - [03/Nov/2026 14:40:00] '' @ [CHR 0x22]
                   @ ''GET /config.js HTTP/1.1'' @ [CHR 0x22] @ '' 200 -'' @ [CHR 0x0A],
        stderr_file = None\<rparr>,
     response_code := Some 200,
     headers_buffer :=
       [(''Server'', version_string L), (''Date'', ''Tue, 03 Nov 2026 14:40:00 GMT'')]
         @ config_headers,
     headers_ended := True,
     wfile := map of_char
                (''window.RAPIDAPI_KEY = '' @ [CHR 0x27] @ ''abc123'' @ [CHR 0x27] @ '';'')\<rparr>)
   \<and> do_GET L B
     (new_handler
        \<lparr>os_environ = Map.empty, files = fs, server_state = x,
         stderr = err, stderr_file = None\<rparr>
        (request_1_1 ''GET'' ''/config.js'')) =
   (Returned,
    (new_handler
       \<lparr>os_environ = Map.empty, files = fs, server_state = x,
        stderr = err, stderr_file = None\<rparr>
       (request_1_1 ''GET'' ''/config.js''))
    \<lparr>world :=
       \<lparr>os_environ = Map.empty, files = fs, server_state = x,
        stderr = err @ ''127.0.0.1 - - [03/Nov/2026 14:40:00] '' @ [CHR 0x22]
                   @ ''GET /config.js HTTP/1.1'' @ [CHR 0x22] @ '' 200 -'' @ [CHR 0x0A],
        stderr_file = None\<rparr>,
     response_code := Some 200,
     headers_buffer :=
       [(''Server'', version_string L), (''Date'', ''Tue, 03 Nov 2026 14:40:00 GMT'')]
         @ config_headers,
     headers_ended := True,
     wfile := map of_char
                (''window.RAPIDAPI_KEY = '' @ [CHR 0x27] @ ''YOUR_RAPIDAPI_KEY_HERE''
                   @ [CHR 0x27] @ '';'')\<rparr>)
   \<and> do_GET L B
     (new_handler
        \<lparr>os_environ = [''RAPIDAPI_KEY'' \<mapsto> [0xDCFF]], files = fs, server_state = x,
         stderr = err, stderr_file = None\<rparr>
        (request_1_1 ''GET'' ''/config.js'')) =
   (Raised UnicodeEncodeError,
    (new_handler
       \<lparr>os_environ = [''RAPIDAPI_KEY'' \<mapsto> [0xDCFF]], files = fs, server_state = x,
        stderr = err, stderr_file = None\<rparr>
       (request_1_1 ''GET'' ''/config.js''))
    \<lparr>world :=
       \<lparr>os_environ = [''RAPIDAPI_KEY'' \<mapsto> [0xDCFF]], files = fs, server_state = x,
        stderr = err @ ''127.0.0.1 - - [03/Nov/2026 14:40:00] '' @ [CHR 0x22]
                   @ ''GET /config.js HTTP/1.1'' @ [CHR 0x22] @ '' 200 -'' @ [CHR 0x0A],
        stderr_file = None\<rparr>,
     response_code := Some 200,
     headers_buffer :=
       [(''Server'', version_string L), (''Date'', ''Tue, 03 Nov 2026 14:40:00 GMT'')]
         @ config_headers,
     headers_ended := True,
     wfile := []\<rparr>)"
proof -
  obtain u where u: "urlparse L ''/config.js'' = Inr u" "pr_path u = ''/config.js''"
    using urlparse_config_js by blast
  have ascii: "\<not> list_ex is_surrogate (str ''abc123'')"
    by (rule list_ex_surrogate_str_ascii) simp
  have b1: "concat (map utf8_char (str (''window.RAPIDAPI_KEY = '' @ [CHR 0x27]))) =
              map of_char (''window.RAPIDAPI_KEY = '' @ [CHR 0x27])"
    and b2: "concat (map utf8_char (str (CHR 0x27 # '';''))) = map of_char (CHR 0x27 # '';'')"
    and b3: "concat (map utf8_char (str ''abc123'')) = map of_char ''abc123''"
    and b4: "concat (map utf8_char (str ''YOUR_RAPIDAPI_KEY_HERE'')) =
               map of_char ''YOUR_RAPIDAPI_KEY_HERE''"
    by (rule ascii_bytes, simp)+
  have e1: "encode_utf8 (config_content (str ''abc123'')) =
              Inr (map of_char
                     (''window.RAPIDAPI_KEY = '' @ [CHR 0x27] @ ''abc123'' @ [CHR 0x27] @ '';''))"
    by (simp only: encode_config_content [OF ascii] b1 b2 b3) simp
  have e2: "encode_utf8 (config_content (str ''YOUR_RAPIDAPI_KEY_HERE'')) =
              Inr (map of_char
                     (''window.RAPIDAPI_KEY = '' @ [CHR 0x27] @ ''YOUR_RAPIDAPI_KEY_HERE''
                        @ [CHR 0x27] @ '';''))"
    by (simp only: encode_config_content [OF fallback_not_surrogate] b1 b2 b4) simp
  have e3: "encode_utf8 (config_content [0xDCFF]) = Inl UnicodeEncodeError"
    by (rule encode_config_content_surrogate) (simp add: is_surrogate_def)
  have lg: "log_entry (new_handler w (request_1_1 ''GET'' ''/config.js'')) 200 =
              ''127.0.0.1 - - [03/Nov/2026 14:40:00] '' @ [CHR 0x22]
                @ ''GET /config.js HTTP/1.1'' @ [CHR 0x22] @ '' 200 -'' @ [CHR 0x0A]"
    for w :: "'a world"
    by (subst log_entry_plain) (simp_all add: decimal_status del: decimal.simps)
  have run: "do_GET L B (new_handler w (request_1_1 ''GET'' ''/config.js'')) =
               (case encode_utf8 (config_content (current_key w)) of
                  Inl e \<Rightarrow>
                    (Raised e, config_head L (new_handler w (request_1_1 ''GET'' ''/config.js'')))
                | Inr bs \<Rightarrow>
                    (Returned,
                     (config_head L (new_handler w (request_1_1 ''GET'' ''/config.js'')))
                       \<lparr>wfile := bs\<rparr>))"
    for w :: "'a world"
    using u by (simp add: do_GET_config [where u = u] split: sum.split)
  have hd: "config_head L (new_handler w (request_1_1 ''GET'' ''/config.js'')) =
              (new_handler w (request_1_1 ''GET'' ''/config.js''))
                \<lparr>world := w\<lparr>stderr := stderr w
                     @ ''127.0.0.1 - - [03/Nov/2026 14:40:00] '' @ [CHR 0x22]
                     @ ''GET /config.js HTTP/1.1'' @ [CHR 0x22] @ '' 200 -'' @ [CHR 0x0A]\<rparr>,
                 response_code := Some 200,
                 headers_buffer :=
                   [(''Server'', version_string L), (''Date'', ''Tue, 03 Nov 2026 14:40:00 GMT'')]
                     @ config_headers,
                 headers_ended := True\<rparr>"
    if "stderr_file w = None" for w :: "'a world"
    unfolding config_head_def lg
    using that by (simp add: stderr_write_def config_headers_def)
  show ?thesis
    by (simp add: run hd current_key_def environ_get_def e1 e2 e3)
qed

text \<open>
  C2 (what the code does where the claim holds and where it fails). The claim promises
  that every GET whose path is not \<open>/config.js\<close> is handed to the static file server.
  With a static file server that answers a stored file with 200 and its bytes and
  anything else with 404, \<open>/index.html\<close> and \<open>/does-not-exist.html\<close> are answered so. For
  the request target \<open>http://[/x\<close> the call of \<open>urlparse\<close> raises \<open>ValueError\<close> (an
  unmatched bracket in the network location): \<open>do_GET\<close> ends there, nothing is sent or
  logged and the inherited \<open>do_GET\<close> is not called, whatever the handler object and the
  base class are; the static file server, which would have answered 404, is not reached.
\<close>

theorem do_GET_at_three_targets:
  "do_GET lib0 base0 (new_handler (world0 None) (request_1_1 ''GET'' ''/index.html'')) =
     (Returned,
      (new_handler (world0 None) (request_1_1 ''GET'' ''/index.html''))
        \<lparr>world := (world0 None)
           \<lparr>stderr := ''127.0.0.1 - - [03/Nov/2026 14:40:00] '' @ [CHR 0x22]
                @ ''GET /index.html HTTP/1.1'' @ [CHR 0x22] @ '' 200 -'' @ [CHR 0x0A]\<rparr>,
         response_code := Some 200,
         headers_buffer :=
           [(''Server'', ''SimpleHTTP/0.6 Python/3.11.10''),
            (''Date'', ''Tue, 03 Nov 2026 14:40:00 GMT'')],
         headers_ended := True, wfile := [0x3C, 0x70, 0x3E]\<rparr>)
   \<and> do_GET lib0 base0
       (new_handler (world0 None) (request_1_1 ''GET'' ''/does-not-exist.html'')) =
     (Returned,
      (new_handler (world0 None) (request_1_1 ''GET'' ''/does-not-exist.html''))
        \<lparr>world := (world0 None)
           \<lparr>stderr := ''127.0.0.1 - - [03/Nov/2026 14:40:00] '' @ [CHR 0x22]
                @ ''GET /does-not-exist.html HTTP/1.1'' @ [CHR 0x22] @ '' 404 -''
                @ [CHR 0x0A]\<rparr>,
         response_code := Some 404,
         headers_buffer :=
           [(''Server'', ''SimpleHTTP/0.6 Python/3.11.10''),
            (''Date'', ''Tue, 03 Nov 2026 14:40:00 GMT'')]\<rparr>)
   \<and> do_GET L B (self\<lparr>path := ''http://[/x''\<rparr>) =
     (Raised ValueError, self\<lparr>path := ''http://[/x''\<rparr>)
   \<and> super_do_GET base0 (new_handler (world0 None) (request_1_1 ''GET'' ''http://[/x'')) =
     (Returned,
      (new_handler (world0 None) (request_1_1 ''GET'' ''http://[/x''))
        \<lparr>world := (world0 None)
           \<lparr>stderr := ''127.0.0.1 - - [03/Nov/2026 14:40:00] '' @ [CHR 0x22]
                @ ''GET http://[/x HTTP/1.1'' @ [CHR 0x22] @ '' 404 -'' @ [CHR 0x0A]\<rparr>,
         response_code := Some 404,
         headers_buffer :=
           [(''Server'', ''SimpleHTTP/0.6 Python/3.11.10''),
            (''Date'', ''Tue, 03 Nov 2026 14:40:00 GMT'')]\<rparr>)"
proof -
  obtain u where u: "urlparse lib0 ''/index.html'' = Inr u" "pr_path u \<noteq> ''/config.js''"
    using urlparse_index_html [of lib0] by auto
  obtain v where v: "urlparse lib0 ''/does-not-exist.html'' = Inr v"
      "pr_path v \<noteq> ''/config.js''"
    by (simp add: urlparse_unfold)
  have lg: "log_entry (new_handler w (request_1_1 ''GET'' t)) code =
              ''127.0.0.1 - - [03/Nov/2026 14:40:00] '' @ [CHR 0x22]
                @ ''GET '' @ t @ '' HTTP/1.1'' @ [CHR 0x22] @ '' '' @ decimal code @ '' -''
                @ [CHR 0x0A]"
    if "list_all (\<lambda>c. (0x20 :: nat) \<le> of_char c \<and> (of_char c :: nat) < 0x7F \<and> c \<noteq> CHR 0x5C)
          (t @ decimal code)"
    for w :: "unit world" and t code
    using that by (subst log_entry_plain) simp_all
  have static: "super_do_GET base0 (new_handler (world0 None) (request_1_1 ''GET'' t)) =
                  (case files (world0 None) t of
                     None \<Rightarrow>
                       (Returned,
                        (new_handler (world0 None) (request_1_1 ''GET'' t))
                          \<lparr>world := (world0 None)
                             \<lparr>stderr := ''127.0.0.1 - - [03/Nov/2026 14:40:00] '' @ [CHR 0x22]
                                  @ ''GET '' @ t @ '' HTTP/1.1'' @ [CHR 0x22] @ '' 404 -''
                                  @ [CHR 0x0A]\<rparr>,
                           response_code := Some 404,
                           headers_buffer :=
                             [(''Server'', ''SimpleHTTP/0.6 Python/3.11.10''),
                              (''Date'', ''Tue, 03 Nov 2026 14:40:00 GMT'')]\<rparr>)
                   | Some bs \<Rightarrow>
                       (Returned,
                        (new_handler (world0 None) (request_1_1 ''GET'' t))
                          \<lparr>world := (world0 None)
                             \<lparr>stderr := ''127.0.0.1 - - [03/Nov/2026 14:40:00] '' @ [CHR 0x22]
                                  @ ''GET '' @ t @ '' HTTP/1.1'' @ [CHR 0x22] @ '' 200 -''
                                  @ [CHR 0x0A]\<rparr>,
                           response_code := Some 200,
                           headers_buffer :=
                             [(''Server'', ''SimpleHTTP/0.6 Python/3.11.10''),
                              (''Date'', ''Tue, 03 Nov 2026 14:40:00 GMT'')],
                           headers_ended := True, wfile := bs\<rparr>))"
    if "list_all (\<lambda>c. (0x20 :: nat) \<le> of_char c \<and> (of_char c :: nat) < 0x7F \<and> c \<noteq> CHR 0x5C) t"
    for t
  proof -
    have l200: "log_entry (new_handler w (request_1_1 ''GET'' t)) 200 =
            ''127.0.0.1 - - [03/Nov/2026 14:40:00] '' @ [CHR 0x22]
              @ ''GET '' @ t @ '' HTTP/1.1'' @ [CHR 0x22] @ '' 200 -'' @ [CHR 0x0A]"
      and l404: "log_entry (new_handler w (request_1_1 ''GET'' t)) 404 =
            ''127.0.0.1 - - [03/Nov/2026 14:40:00] '' @ [CHR 0x22]
              @ ''GET '' @ t @ '' HTTP/1.1'' @ [CHR 0x22] @ '' 404 -'' @ [CHR 0x0A]"
      for w :: "unit world"
      using that by (simp_all add: lg decimal_status del: decimal.simps)
    show ?thesis
      by (simp add: super_do_GET_def base0_def static_do_GET_def send_response_sent
          end_headers_def wfile_write_def stderr_write_def l200 l404 split: option.split)
        (simp add: world0_def lib0_def)
  qed
  have other: "do_GET lib0 base0 (new_handler (world0 None) (request_1_1 ''GET'' t)) =
                 super_do_GET base0 (new_handler (world0 None) (request_1_1 ''GET'' t))"
    if "urlparse lib0 t = Inr u'" "pr_path u' \<noteq> ''/config.js''" for t u'
    using that by (simp add: do_GET_other [where u = u'])
  have a: "do_GET lib0 base0 (new_handler (world0 None) (request_1_1 ''GET'' ''/index.html'')) =
     (Returned,
      (new_handler (world0 None) (request_1_1 ''GET'' ''/index.html''))
        \<lparr>world := (world0 None)
           \<lparr>stderr := ''127.0.0.1 - - [03/Nov/2026 14:40:00] '' @ [CHR 0x22]
                @ ''GET /index.html HTTP/1.1'' @ [CHR 0x22] @ '' 200 -'' @ [CHR 0x0A]\<rparr>,
         response_code := Some 200,
         headers_buffer :=
           [(''Server'', ''SimpleHTTP/0.6 Python/3.11.10''),
            (''Date'', ''Tue, 03 Nov 2026 14:40:00 GMT'')],
         headers_ended := True, wfile := [0x3C, 0x70, 0x3E]\<rparr>)"
    by (subst other [OF u], subst static) (simp_all add: world0_def)
  have b: "do_GET lib0 base0
       (new_handler (world0 None) (request_1_1 ''GET'' ''/does-not-exist.html'')) =
     (Returned,
      (new_handler (world0 None) (request_1_1 ''GET'' ''/does-not-exist.html''))
        \<lparr>world := (world0 None)
           \<lparr>stderr := ''127.0.0.1 - - [03/Nov/2026 14:40:00] '' @ [CHR 0x22]
                @ ''GET /does-not-exist.html HTTP/1.1'' @ [CHR 0x22] @ '' 404 -''
                @ [CHR 0x0A]\<rparr>,
         response_code := Some 404,
         headers_buffer :=
           [(''Server'', ''SimpleHTTP/0.6 Python/3.11.10''),
            (''Date'', ''Tue, 03 Nov 2026 14:40:00 GMT'')]\<rparr>)"
    by (subst other [OF v], subst static) (simp_all add: world0_def)
  have c: "do_GET L B (self\<lparr>path := ''http://[/x''\<rparr>) =
     (Raised ValueError, self\<lparr>path := ''http://[/x''\<rparr>)"
    by (simp add: do_GET_raises urlparse_unmatched_bracket)
  have d: "super_do_GET base0 (new_handler (world0 None) (request_1_1 ''GET'' ''http://[/x'')) =
     (Returned,
      (new_handler (world0 None) (request_1_1 ''GET'' ''http://[/x''))
        \<lparr>world := (world0 None)
           \<lparr>stderr := ''127.0.0.1 - - [03/Nov/2026 14:40:00] '' @ [CHR 0x22]
                @ ''GET http://[/x HTTP/1.1'' @ [CHR 0x22] @ '' 404 -'' @ [CHR 0x0A]\<rparr>,
         response_code := Some 404,
         headers_buffer :=
           [(''Server'', ''SimpleHTTP/0.6 Python/3.11.10''),
            (''Date'', ''Tue, 03 Nov 2026 14:40:00 GMT'')]\<rparr>)"
    by (subst static) (simp_all add: world0_def)
  from a b c d show ?thesis by (intro conjI)
qed



text \<open>
  C4 (where the claim fails). The request line \<open>GET /config.js\<close>, without a version, is a
  request of version \<open>HTTP/0.9\<close>. \<open>do_GET\<close> answers it: the body is written, but
  \<open>send_response\<close>, \<open>send_header\<close> and \<open>end_headers\<close> send nothing for this version, so the
  response carries no status line and no header, neither \<open>Content-Type\<close> nor
  \<open>Cache-Control\<close>.
\<close>

theorem config_response_headers_counterexample:
  "request_version (new_handler (world0 None) (request_0_9 ''GET'' ''/config.js'')) = ''HTTP/0.9''
   \<and> fst (do_GET lib0 base0 (new_handler (world0 None) (request_0_9 ''GET'' ''/config.js''))) =
     Returned
   \<and> wfile (snd (do_GET lib0 base0
        (new_handler (world0 None) (request_0_9 ''GET'' ''/config.js'')))) =
     map of_char
       (''window.RAPIDAPI_KEY = '' @ [CHR 0x27] @ ''YOUR_RAPIDAPI_KEY_HERE'' @ [CHR 0x27] @ '';'')
   \<and> response_code (snd (do_GET lib0 base0
        (new_handler (world0 None) (request_0_9 ''GET'' ''/config.js'')))) = None
   \<and> headers_buffer (snd (do_GET lib0 base0
        (new_handler (world0 None) (request_0_9 ''GET'' ''/config.js'')))) = []
   \<and> headers_ended (snd (do_GET lib0 base0
        (new_handler (world0 None) (request_0_9 ''GET'' ''/config.js'')))) = False"
proof -
  let ?h = "new_handler (world0 None) (request_0_9 ''GET'' ''/config.js'')"
  have p: "urlparse lib0 (path ?h) = Inr config_js_parsed"
    by (simp add: urlparse_config_js_lib0)
  have q: "pr_path config_js_parsed = ''/config.js''"
    by (simp add: config_js_parsed_def)
  have k: "current_key (world0 None) = str ''YOUR_RAPIDAPI_KEY_HERE''"
    by (simp add: current_key_def world0_def environ_get_def)
  have e: "encode_utf8 (config_content (str ''YOUR_RAPIDAPI_KEY_HERE'')) =
             Inr (map of_char
                    (''window.RAPIDAPI_KEY = '' @ [CHR 0x27] @ ''YOUR_RAPIDAPI_KEY_HERE''
                       @ [CHR 0x27] @ '';''))"
    by (simp only: encode_config_content [OF fallback_not_surrogate])
       (simp add: str_def utf8_char_def of_nat_of_char)
  show ?thesis
    by (simp add: do_GET_config [OF p q] k e config_head_def)
qed

text \<open>
  C4 (amended). Every response to a GET whose parsed path is \<open>/config.js\<close> and whose
  request line names an HTTP version (any request but one of version \<open>HTTP/0.9\<close>), for
  every environment state, has status 200 and carries, after whatever headers were
  buffered before, the headers \<open>Server\<close> and \<open>Date\<close> of \<open>send_response\<close> and then
  \<open>Content-type: application/javascript\<close> and \<open>Cache-Control: no-cache\<close>, and the headers
  are ended (also when \<open>encode\<close> raises afterwards).
\<close>

theorem config_response_headers:
  assumes "urlparse L (path self) = Inr u" and "pr_path u = ''/config.js''"
    and "request_version self \<noteq> ''HTTP/0.9''"
  shows "response_code (snd (do_GET L B self)) = Some 200
         \<and> headers_buffer (snd (do_GET L B self)) =
           headers_buffer self
             @ [(''Server'', version_string L), (''Date'', date_time_string self),
                (''Content-type'', ''application/javascript''), (''Cache-Control'', ''no-cache'')]
         \<and> headers_ended (snd (do_GET L B self))"
  using assms
  by (simp add: do_GET_config [where u = u] config_head_def split: sum.split)

theorem config_response_headers_witness:
  "urlparse lib0 (path (new_handler (world0 None) (request_1_1 ''GET'' ''/config.js''))) =
     Inr config_js_parsed
   \<and> pr_path config_js_parsed = ''/config.js''
   \<and> request_version (new_handler (world0 None) (request_1_1 ''GET'' ''/config.js'')) \<noteq> ''HTTP/0.9''
   \<and> response_code (snd (do_GET lib0 base0
        (new_handler (world0 None) (request_1_1 ''GET'' ''/config.js'')))) = Some 200
   \<and> headers_buffer (snd (do_GET lib0 base0
        (new_handler (world0 None) (request_1_1 ''GET'' ''/config.js'')))) =
     [(''Server'', ''SimpleHTTP/0.6 Python/3.11.10''),
      (''Date'', ''Tue, 03 Nov 2026 14:40:00 GMT''),
      (''Content-type'', ''application/javascript''), (''Cache-Control'', ''no-cache'')]
   \<and> headers_ended (snd (do_GET lib0 base0
        (new_handler (world0 None) (request_1_1 ''GET'' ''/config.js''))))"
proof -
  let ?h = "new_handler (world0 None) (request_1_1 ''GET'' ''/config.js'')"
  have p: "urlparse lib0 (path ?h) = Inr config_js_parsed"
    by (simp add: urlparse_config_js_lib0)
  have q: "pr_path config_js_parsed = ''/config.js''"
    by (simp add: config_js_parsed_def)
  have v: "request_version ?h \<noteq> ''HTTP/0.9''"
    by simp
  from config_response_headers [OF p q v, of base0] p q v show ?thesis
    by (simp add: lib0_def)
qed

text \<open>
  C5 (where the claim fails). The variable holds the byte \<open>0x80\<close> (the lone surrogate
  \<open>U+DC80\<close>) for a first \<open>GET /config.js\<close> and is changed to the byte \<open>0x81\<close> (\<open>U+DC81\<close>)
  before the next one. The value has changed; both requests end with no body, and
  nothing of the new value is in the next response.
\<close>

theorem config_body_function_of_key_counterexample:
  "os_environ (world0 (Some [0xDC80])) ''RAPIDAPI_KEY'' = Some [0xDC80]
   \<and> [0xDC80] \<noteq> [0xDC81 :: nat]
   \<and> wfile (snd (do_GET lib0 base0
        (new_handler (world0 (Some [0xDC80])) (request_1_1 ''GET'' ''/config.js'')))) = []
   \<and> wfile (snd (do_GET lib0 base0
        (new_handler
           ((world (snd (do_GET lib0 base0
                (new_handler (world0 (Some [0xDC80])) (request_1_1 ''GET'' ''/config.js'')))))
              \<lparr>os_environ :=
                 (os_environ (world0 (Some [0xDC80])))(''RAPIDAPI_KEY'' \<mapsto> [0xDC81])\<rparr>)
           (request_1_1 ''GET'' ''/config.js'')))) = []"
proof -
  have p: "urlparse lib0 (path (new_handler w (request_1_1 ''GET'' ''/config.js''))) =
             Inr config_js_parsed" for w :: "unit world"
    by (simp add: urlparse_config_js_lib0)
  have q: "pr_path config_js_parsed = ''/config.js''"
    by (simp add: config_js_parsed_def)
  have e: "encode_utf8 (config_content [0xDC80]) = Inl UnicodeEncodeError"
    "encode_utf8 (config_content [0xDC81]) = Inl UnicodeEncodeError"
    by (rule encode_config_content_surrogate, simp add: is_surrogate_def)+
  have k: "current_key (world0 (Some [0xDC80])) = [0xDC80]"
    "current_key (w\<lparr>os_environ := (os_environ w')(''RAPIDAPI_KEY'' \<mapsto> [0xDC81])\<rparr>) = [0xDC81]"
    for w w' :: "unit world"
    by (simp_all add: current_key_def world0_def environ_get_def)
  show ?thesis
    by (simp add: do_GET_config [OF p q] k e) (simp add: world0_def)
qed

text \<open>
  C5 (amended). The key is read when the request is handled, and the outcome and the
  body of a GET whose parsed path is \<open>/config.js\<close> depend on the value of \<open>RAPIDAPI_KEY\<close>
  alone: two such requests, in any two processes, with any two base classes, request
  lines and versions, that find the same value give the same outcome and the same body.
  When the variable is given another value (or unset) after a first such request and the
  key then in force (the value, or the fallback when unset) is free of surrogate code
  points, the next request returns and its body is the statement for that key; and where
  that key and the one before are texts (Unicode scalar values only) and differ, the
  body differs from the one before.
\<close>

theorem config_body_function_of_key:
  assumes "urlparse L1 (path rq1) = Inr u1" and "pr_path u1 = ''/config.js''"
    and "urlparse L2 (path rq2) = Inr u2" and "pr_path u2 = ''/config.js''"
  shows "(os_environ w1 ''RAPIDAPI_KEY'' = os_environ w2 ''RAPIDAPI_KEY'' \<longrightarrow>
            fst (do_GET L1 B1 (new_handler w1 rq1)) = fst (do_GET L2 B2 (new_handler w2 rq2))
            \<and> wfile (snd (do_GET L1 B1 (new_handler w1 rq1))) =
              wfile (snd (do_GET L2 B2 (new_handler w2 rq2))))
         \<and> (\<not> list_ex is_surrogate (effective_key v) \<longrightarrow>
              fst (do_GET L2 B2
                (new_handler
                   ((world (snd (do_GET L1 B1 (new_handler w1 rq1))))
                      \<lparr>os_environ := (os_environ w1)(''RAPIDAPI_KEY'' := v)\<rparr>) rq2)) = Returned
              \<and> wfile (snd (do_GET L2 B2
                (new_handler
                   ((world (snd (do_GET L1 B1 (new_handler w1 rq1))))
                      \<lparr>os_environ := (os_environ w1)(''RAPIDAPI_KEY'' := v)\<rparr>) rq2))) =
                concat (map utf8_char (str (''window.RAPIDAPI_KEY = '' @ [CHR 0x27])))
                  @ concat (map utf8_char (effective_key v))
                  @ concat (map utf8_char (str (CHR 0x27 # '';''))))
         \<and> (scalar_values (current_key w1) \<and> scalar_values (effective_key v)
              \<and> effective_key v \<noteq> current_key w1 \<longrightarrow>
              wfile (snd (do_GET L2 B2
                (new_handler
                   ((world (snd (do_GET L1 B1 (new_handler w1 rq1))))
                      \<lparr>os_environ := (os_environ w1)(''RAPIDAPI_KEY'' := v)\<rparr>) rq2))) \<noteq>
              wfile (snd (do_GET L1 B1 (new_handler w1 rq1))))"
proof -
  have run: "do_GET L B (new_handler w rq) =
               (case encode_utf8 (config_content (current_key w)) of
                  Inl e \<Rightarrow> (Raised e, config_head L (new_handler w rq))
                | Inr bs \<Rightarrow> (Returned, (config_head L (new_handler w rq))\<lparr>wfile := bs\<rparr>))"
    if "urlparse L (path rq) = Inr u" and "pr_path u = ''/config.js''"
    for L and B :: "'a base" and w rq u
    using that by (simp add: do_GET_config [where u = u] split: sum.split)
  have body: "fst (do_GET L B (new_handler w rq)) = Returned
              \<and> wfile (snd (do_GET L B (new_handler w rq))) =
                concat (map utf8_char (str (''window.RAPIDAPI_KEY = '' @ [CHR 0x27])))
                  @ concat (map utf8_char (current_key w))
                  @ concat (map utf8_char (str (CHR 0x27 # '';'')))"
    if "urlparse L (path rq) = Inr u" and "pr_path u = ''/config.js''"
      and "\<not> list_ex is_surrogate (current_key w)"
    for L and B :: "'a base" and w rq u
    by (simp add: run [OF that(1,2)] encode_config_content [OF that(3)])
  have same: "fst (do_GET L1 B1 (new_handler w1 rq1)) = fst (do_GET L2 B2 (new_handler w2 rq2))
              \<and> wfile (snd (do_GET L1 B1 (new_handler w1 rq1))) =
                wfile (snd (do_GET L2 B2 (new_handler w2 rq2)))"
    if "os_environ w1 ''RAPIDAPI_KEY'' = os_environ w2 ''RAPIDAPI_KEY''"
  proof -
    from that have "current_key w1 = current_key w2"
      by (simp add: current_key_def environ_get_def)
    then show ?thesis
      by (simp add: run [OF assms(1,2)] run [OF assms(3,4)] split: sum.split)
  qed
  let ?w = "(world (snd (do_GET L1 B1 (new_handler w1 rq1))))
              \<lparr>os_environ := (os_environ w1)(''RAPIDAPI_KEY'' := v)\<rparr>"
  have key: "current_key ?w = effective_key v"
    by (simp add: current_key_def environ_get_def effective_key_def split: option.split)
  have sv: "\<not> list_ex is_surrogate k" "\<forall>c \<in> set k. c < 0x110000" if "scalar_values k" for k
    using that by (auto simp: scalar_values_def list_all_iff list_ex_iff)
  have next_body: "fst (do_GET L2 B2 (new_handler ?w rq2)) = Returned
              \<and> wfile (snd (do_GET L2 B2 (new_handler ?w rq2))) =
                concat (map utf8_char (str (''window.RAPIDAPI_KEY = '' @ [CHR 0x27])))
                  @ concat (map utf8_char (effective_key v))
                  @ concat (map utf8_char (str (CHR 0x27 # '';'')))"
    if "\<not> list_ex is_surrogate (effective_key v)"
  proof -
    from that have "\<not> list_ex is_surrogate (current_key ?w)"
      by (simp add: key)
    from body [OF assms(3,4) this, of B2] show ?thesis
      by (simp only: key)
  qed
  have differ: "wfile (snd (do_GET L2 B2 (new_handler ?w rq2))) \<noteq>
                  wfile (snd (do_GET L1 B1 (new_handler w1 rq1)))"
    if "scalar_values (current_key w1)" and "scalar_values (effective_key v)"
      and "effective_key v \<noteq> current_key w1"
  proof
    assume eq: "wfile (snd (do_GET L2 B2 (new_handler ?w rq2))) =
                  wfile (snd (do_GET L1 B1 (new_handler w1 rq1)))"
    from body [OF assms(1,2) sv(1) [OF that(1)], of B1]
      next_body [OF sv(1) [OF that(2)]] eq
    have "concat (map utf8_char (str (''window.RAPIDAPI_KEY = '' @ [CHR 0x27])))
            @ concat (map utf8_char (effective_key v))
            @ concat (map utf8_char (str (CHR 0x27 # '';''))) =
          concat (map utf8_char (str (''window.RAPIDAPI_KEY = '' @ [CHR 0x27])))
            @ concat (map utf8_char (current_key w1))
            @ concat (map utf8_char (str (CHR 0x27 # '';'')))"
      by simp
    then have "effective_key v = current_key w1"
      by (rule config_body_inj [OF sv(2) [OF that(2)] sv(2) [OF that(1)]])
    with that(3) show False by simp
  qed
  from same next_body differ show ?thesis
    by blast
qed

theorem config_body_function_of_key_witness:
  "urlparse lib0 (path (request_1_1 ''GET'' ''/config.js'')) = Inr config_js_parsed
   \<and> pr_path config_js_parsed = ''/config.js''
   \<and> urlparse lib0 (path (request_0_9 ''GET'' ''/config.js?v=2'')) = Inr config_js_v2_parsed
   \<and> pr_path config_js_v2_parsed = ''/config.js''
   \<and> os_environ (world0 (Some [0x61])) ''RAPIDAPI_KEY'' = os_environ world1 ''RAPIDAPI_KEY''
   \<and> wfile (snd (do_GET lib0 base0
        (new_handler (world0 (Some [0x61])) (request_1_1 ''GET'' ''/config.js'')))) =
       wfile (snd (do_GET lib0 base0
         (new_handler world1 (request_0_9 ''GET'' ''/config.js?v=2''))))
   \<and> \<not> list_ex is_surrogate (effective_key (Some [0x62]))
   \<and> scalar_values (current_key (world0 (Some [0x61])))
   \<and> scalar_values (effective_key (Some [0x62]))
   \<and> effective_key (Some [0x62]) \<noteq> current_key (world0 (Some [0x61]))
   \<and> wfile (snd (do_GET lib0 base0
        (new_handler
           ((world (snd (do_GET lib0 base0
                (new_handler (world0 (Some [0x61])) (request_1_1 ''GET'' ''/config.js'')))))
              \<lparr>os_environ :=
                 (os_environ (world0 (Some [0x61])))(''RAPIDAPI_KEY'' := Some [0x62])\<rparr>)
           (request_0_9 ''GET'' ''/config.js?v=2'')))) =
       map of_char (''window.RAPIDAPI_KEY = '' @ [CHR 0x27] @ ''b'' @ [CHR 0x27] @ '';'')
   \<and> wfile (snd (do_GET lib0 base0
        (new_handler
           ((world (snd (do_GET lib0 base0
                (new_handler (world0 (Some [0x61])) (request_1_1 ''GET'' ''/config.js'')))))
              \<lparr>os_environ :=
                 (os_environ (world0 (Some [0x61])))(''RAPIDAPI_KEY'' := Some [0x62])\<rparr>)
           (request_0_9 ''GET'' ''/config.js?v=2'')))) \<noteq>
       wfile (snd (do_GET lib0 base0
        (new_handler (world0 (Some [0x61])) (request_1_1 ''GET'' ''/config.js''))))"
proof -
  have p: "urlparse lib0 (path (request_1_1 ''GET'' ''/config.js'')) = Inr config_js_parsed"
    by (simp add: urlparse_config_js_lib0)
  have q: "pr_path config_js_parsed = ''/config.js''"
    by (simp add: config_js_parsed_def)
  have p': "urlparse lib0 (path (request_0_9 ''GET'' ''/config.js?v=2'')) =
              Inr config_js_v2_parsed"
    by (simp add: urlparse_unfold config_js_v2_parsed_def)
  have q': "pr_path config_js_v2_parsed = ''/config.js''"
    by (simp add: config_js_v2_parsed_def)
  have e: "os_environ (world0 (Some [0x61])) ''RAPIDAPI_KEY'' = os_environ world1 ''RAPIDAPI_KEY''"
    by (simp add: world0_def world1_def)
  have k: "current_key (world0 (Some [0x61])) = [0x61]" "effective_key (Some [0x62]) = [0x62]"
    by (simp_all add: current_key_def world0_def environ_get_def effective_key_def)
  have s: "\<not> list_ex is_surrogate (effective_key (Some [0x62]))"
    and t: "scalar_values (current_key (world0 (Some [0x61])))"
      "scalar_values (effective_key (Some [0x62]))"
    and d: "effective_key (Some [0x62]) \<noteq> current_key (world0 (Some [0x61]))"
    by (simp_all add: k scalar_values_def is_surrogate_def)
  have b: "concat (map utf8_char (str (''window.RAPIDAPI_KEY = '' @ [CHR 0x27])))
             @ concat (map utf8_char (effective_key (Some [0x62])))
             @ concat (map utf8_char (str (CHR 0x27 # '';''))) =
           map of_char (''window.RAPIDAPI_KEY = '' @ [CHR 0x27] @ ''b'' @ [CHR 0x27] @ '';'')"
    by (simp add: k str_def utf8_char_def of_nat_of_char)
  note inst = config_body_function_of_key [OF p q p' q', of "world0 (Some [0x61])" world1
      base0 base0 "Some [0x62]"]
  from inst e have c1:
    "wfile (snd (do_GET lib0 base0
        (new_handler (world0 (Some [0x61])) (request_1_1 ''GET'' ''/config.js'')))) =
     wfile (snd (do_GET lib0 base0
        (new_handler world1 (request_0_9 ''GET'' ''/config.js?v=2''))))"
    by blast
  from inst s have
    "wfile (snd (do_GET lib0 base0
        (new_handler
           ((world (snd (do_GET lib0 base0
                (new_handler (world0 (Some [0x61])) (request_1_1 ''GET'' ''/config.js'')))))
              \<lparr>os_environ :=
                 (os_environ (world0 (Some [0x61])))(''RAPIDAPI_KEY'' := Some [0x62])\<rparr>)
           (request_0_9 ''GET'' ''/config.js?v=2'')))) =
     concat (map utf8_char (str (''window.RAPIDAPI_KEY = '' @ [CHR 0x27])))
       @ concat (map utf8_char (effective_key (Some [0x62])))
       @ concat (map utf8_char (str (CHR 0x27 # '';'')))"
    by blast
  then have c2:
    "wfile (snd (do_GET lib0 base0
        (new_handler
           ((world (snd (do_GET lib0 base0
                (new_handler (world0 (Some [0x61])) (request_1_1 ''GET'' ''/config.js'')))))
              \<lparr>os_environ :=
                 (os_environ (world0 (Some [0x61])))(''RAPIDAPI_KEY'' := Some [0x62])\<rparr>)
           (request_0_9 ''GET'' ''/config.js?v=2'')))) =
     map of_char (''window.RAPIDAPI_KEY = '' @ [CHR 0x27] @ ''b'' @ [CHR 0x27] @ '';'')"
    by (simp only: b)
  from inst t d have c3:
    "wfile (snd (do_GET lib0 base0
        (new_handler
           ((world (snd (do_GET lib0 base0
                (new_handler (world0 (Some [0x61])) (request_1_1 ''GET'' ''/config.js'')))))
              \<lparr>os_environ :=
                 (os_environ (world0 (Some [0x61])))(''RAPIDAPI_KEY'' := Some [0x62])\<rparr>)
           (request_0_9 ''GET'' ''/config.js?v=2'')))) \<noteq>
     wfile (snd (do_GET lib0 base0
        (new_handler (world0 (Some [0x61])) (request_1_1 ''GET'' ''/config.js''))))"
    by blast
  from p q p' q' e c1 s t d c2 c3 show ?thesis
    by (intro conjI)
qed

text \<open>
  C6. Only \<open>do_GET\<close> is overridden. A request whose method is not \<open>GET\<close>, whatever its
  target (\<open>/config.js\<close> included), is answered by \<open>WeatherHandler\<close> exactly as the base
  class answers it: by the base class's method of that name, or by its \<open>501\<close> when there
  is none.
\<close>

theorem non_GET_is_inherited:
  assumes "command self \<noteq> ''GET''"
  shows "dispatch (WeatherHandler L B) self = dispatch B self"
  using assms by (simp add: dispatch_def WeatherHandler_def split: option.split)

theorem non_GET_is_inherited_witness:
  "command (new_handler (world0 None) (request_1_1 ''POST'' ''/config.js'')) \<noteq> ''GET''
   \<and> dispatch (WeatherHandler lib0 base0)
       (new_handler (world0 None) (request_1_1 ''POST'' ''/config.js'')) =
     dispatch base0 (new_handler (world0 None) (request_1_1 ''POST'' ''/config.js''))
   \<and> dispatch base0 (new_handler (world0 None) (request_1_1 ''POST'' ''/config.js'')) =
     (Returned,
      send_response lib0 501 (new_handler (world0 None) (request_1_1 ''POST'' ''/config.js'')))
   \<and> response_code
       (snd (dispatch (WeatherHandler lib0 base0)
          (new_handler (world0 None) (request_1_1 ''POST'' ''/config.js'')))) = Some 501
   \<and> wfile
       (snd (dispatch (WeatherHandler lib0 base0)
          (new_handler (world0 None) (request_1_1 ''POST'' ''/config.js'')))) = []"
proof -
  let ?h = "new_handler (world0 None) (request_1_1 ''POST'' ''/config.js'')"
  have c: "command ?h \<noteq> ''GET''"
    by simp
  have b: "dispatch base0 ?h = (Returned, send_response lib0 501 ?h)"
    by (simp add: dispatch_def base0_def)
  have r: "response_code (send_response lib0 501 ?h) = Some 501"
    "wfile (send_response lib0 501 ?h) = []"
    by (simp_all add: send_response_sent)
  from non_GET_is_inherited [OF c, of lib0 base0] c b r show ?thesis
    by simp
qed






text \<open>
  C9. The comparison is made on the path component that \<open>urlparse\<close> returns. For every
  query string \<open>q\<close>, a GET of \<open>/config.js?q\<close> is answered with the generated response: the
  request is logged, the status 200 and the headers are sent (for a request that names
  a version), and the statement for the key in force is encoded and written, the base
  class taking no part. The comparison is exact: a request whose target \<open>urlparse\<close>
  accepts with any other path component is handed to the inherited \<open>do_GET\<close>; so is
  every plain absolute path, one slash and then no \<open>?\<close>, \<open>#\<close>, \<open>;\<close>, tab or line break,
  other than \<open>/config.js\<close> itself, as \<open>/config.js/\<close>, \<open>/CONFIG.JS\<close> and \<open>/x/config.js\<close> are.
\<close>

theorem config_match_on_parsed_path:
  "do_GET L B (self\<lparr>path := ''/config.js?'' @ q\<rparr>) =
     (case encode_utf8
             (str (''window.RAPIDAPI_KEY = '' @ [CHR 0x27]) @ current_key (world self)
                @ str (CHR 0x27 # '';'')) of
        Inl e \<Rightarrow> (Raised e, config_head L (self\<lparr>path := ''/config.js?'' @ q\<rparr>))
      | Inr bs \<Rightarrow>
          (Returned,
           (config_head L (self\<lparr>path := ''/config.js?'' @ q\<rparr>))\<lparr>wfile := wfile self @ bs\<rparr>))
   \<and> (\<not> list_ex is_surrogate (current_key (world self)) \<longrightarrow>
        fst (do_GET L B (self\<lparr>path := ''/config.js?'' @ q\<rparr>)) = Returned
        \<and> wfile (snd (do_GET L B (self\<lparr>path := ''/config.js?'' @ q\<rparr>))) =
          wfile self
            @ concat (map utf8_char (str (''window.RAPIDAPI_KEY = '' @ [CHR 0x27])))
            @ concat (map utf8_char (current_key (world self)))
            @ concat (map utf8_char (str (CHR 0x27 # '';''))))
   \<and> (request_version self \<noteq> ''HTTP/0.9'' \<longrightarrow>
        response_code (snd (do_GET L B (self\<lparr>path := ''/config.js?'' @ q\<rparr>))) = Some 200)
   \<and> (\<forall>u. urlparse L (path self) = Inr u \<and> pr_path u \<noteq> ''/config.js'' \<longrightarrow>
          do_GET L B self = super_do_GET B self)
   \<and> (plain_path p \<and> p \<noteq> ''/config.js'' \<longrightarrow>
        do_GET L B (self\<lparr>path := p\<rparr>) = super_do_GET B (self\<lparr>path := p\<rparr>))
   \<and> do_GET L B (self\<lparr>path := ''/config.js/''\<rparr>) =
       super_do_GET B (self\<lparr>path := ''/config.js/''\<rparr>)
   \<and> do_GET L B (self\<lparr>path := ''/CONFIG.JS''\<rparr>) =
       super_do_GET B (self\<lparr>path := ''/CONFIG.JS''\<rparr>)
   \<and> do_GET L B (self\<lparr>path := ''/x/config.js''\<rparr>) =
       super_do_GET B (self\<lparr>path := ''/x/config.js''\<rparr>)"
proof -
  let ?s = "self\<lparr>path := ''/config.js?'' @ q\<rparr>"
  obtain u where u: "urlparse L (''/config.js?'' @ q) = Inr u" "pr_path u = ''/config.js''"
    using urlparse_config_js_query [of L q] by auto
  have gen: "do_GET L B (self\<lparr>path := t\<rparr>) =
               (case encode_utf8 (config_content (current_key (world self))) of
                  Inl e \<Rightarrow> (Raised e, config_head L (self\<lparr>path := t\<rparr>))
                | Inr bs \<Rightarrow>
                    (Returned, (config_head L (self\<lparr>path := t\<rparr>))\<lparr>wfile := wfile self @ bs\<rparr>))"
    if "urlparse L t = Inr u'" and "pr_path u' = ''/config.js''" for t u'
    using that by (simp add: do_GET_config [where u = u'] split: sum.split)
  note run = gen [OF u]
  have a: "do_GET L B ?s =
     (case encode_utf8
             (str (''window.RAPIDAPI_KEY = '' @ [CHR 0x27]) @ current_key (world self)
                @ str (CHR 0x27 # '';'')) of
        Inl e \<Rightarrow> (Raised e, config_head L ?s)
      | Inr bs \<Rightarrow> (Returned, (config_head L ?s)\<lparr>wfile := wfile self @ bs\<rparr>))"
    unfolding run config_content_def by (rule refl)
  have genb: "fst (do_GET L B (self\<lparr>path := t\<rparr>)) = Returned
        \<and> wfile (snd (do_GET L B (self\<lparr>path := t\<rparr>))) =
          wfile self
            @ concat (map utf8_char (str (''window.RAPIDAPI_KEY = '' @ [CHR 0x27])))
            @ concat (map utf8_char (current_key (world self)))
            @ concat (map utf8_char (str (CHR 0x27 # '';'')))"
    if "urlparse L t = Inr u'" and "pr_path u' = ''/config.js''"
      and "\<not> list_ex is_surrogate (current_key (world self))" for t u'
    by (simp add: gen [OF that(1,2)] encode_config_content [OF that(3)])
  have genc: "response_code (snd (do_GET L B (self\<lparr>path := t\<rparr>))) = Some 200"
    if "urlparse L t = Inr u'" and "pr_path u' = ''/config.js''"
      and "request_version self \<noteq> ''HTTP/0.9''" for t u'
    using that(3) by (simp add: gen [OF that(1,2)] config_head_def split: sum.split)
  have b: "\<not> list_ex is_surrogate (current_key (world self)) \<longrightarrow>
        fst (do_GET L B ?s) = Returned
        \<and> wfile (snd (do_GET L B ?s)) =
          wfile self
            @ concat (map utf8_char (str (''window.RAPIDAPI_KEY = '' @ [CHR 0x27])))
            @ concat (map utf8_char (current_key (world self)))
            @ concat (map utf8_char (str (CHR 0x27 # '';'')))"
    using genb [OF u] by (rule impI)
  have c: "request_version self \<noteq> ''HTTP/0.9'' \<longrightarrow>
        response_code (snd (do_GET L B ?s)) = Some 200"
    using genc [OF u] by (rule impI)
  have d: "\<forall>u. urlparse L (path self) = Inr u \<and> pr_path u \<noteq> ''/config.js'' \<longrightarrow>
          do_GET L B self = super_do_GET B self"
    using do_GET_other [of L self _ B] by blast
  have plain: "do_GET L B (self\<lparr>path := t\<rparr>) = super_do_GET B (self\<lparr>path := t\<rparr>)"
    if "plain_path t" and "t \<noteq> ''/config.js''" for t
  proof -
    from urlparse_plain_path [OF that(1), of L]
    have "urlparse L (path (self\<lparr>path := t\<rparr>)) =
            Inr \<lparr>pr_scheme = '''', pr_netloc = '''', pr_path = t,
                  pr_params = '''', pr_query = '''', pr_fragment = ''''\<rparr>"
      by simp
    then show ?thesis
      by (rule do_GET_other) (simp add: that(2))
  qed
  have e: "plain_path p \<and> p \<noteq> ''/config.js'' \<longrightarrow>
        do_GET L B (self\<lparr>path := p\<rparr>) = super_do_GET B (self\<lparr>path := p\<rparr>)"
    using plain [of p] by blast
  have f1: "do_GET L B (self\<lparr>path := ''/config.js/''\<rparr>) =
       super_do_GET B (self\<lparr>path := ''/config.js/''\<rparr>)"
    by (rule plain) (simp_all add: plain_path_def)
  have f2: "do_GET L B (self\<lparr>path := ''/CONFIG.JS''\<rparr>) =
       super_do_GET B (self\<lparr>path := ''/CONFIG.JS''\<rparr>)"
    by (rule plain) (simp_all add: plain_path_def)
  have f3: "do_GET L B (self\<lparr>path := ''/x/config.js''\<rparr>) =
       super_do_GET B (self\<lparr>path := ''/x/config.js''\<rparr>)"
    by (rule plain) (simp_all add: plain_path_def)
  from a b c d e f1 f2 f3 show ?thesis
    by (intro conjI)
qed

theorem config_match_on_parsed_path_witness:
  "\<not> list_ex is_surrogate
       (current_key (world (new_handler (world0 (Some (str ''abc123'')))
          (request_1_1 ''GET'' ''/config.js''))))
   \<and> wfile (snd (do_GET lib0 base0
        ((new_handler (world0 (Some (str ''abc123''))) (request_1_1 ''GET'' ''/config.js''))
           \<lparr>path := ''/config.js?'' @ ''v=2''\<rparr>))) =
     map of_char (''window.RAPIDAPI_KEY = '' @ [CHR 0x27] @ ''abc123'' @ [CHR 0x27] @ '';'')
   \<and> request_version (new_handler (world0 (Some (str ''abc123'')))
         (request_1_1 ''GET'' ''/config.js'')) \<noteq> ''HTTP/0.9''
   \<and> response_code (snd (do_GET lib0 base0
        ((new_handler (world0 (Some (str ''abc123''))) (request_1_1 ''GET'' ''/config.js''))
           \<lparr>path := ''/config.js?'' @ ''v=2''\<rparr>))) = Some 200
   \<and> plain_path ''/assets/config.js'' \<and> ''/assets/config.js'' \<noteq> ''/config.js''
   \<and> do_GET lib0 base0
        ((new_handler (world0 (Some (str ''abc123''))) (request_1_1 ''GET'' ''/config.js''))
           \<lparr>path := ''/assets/config.js''\<rparr>) =
       super_do_GET base0
        ((new_handler (world0 (Some (str ''abc123''))) (request_1_1 ''GET'' ''/config.js''))
           \<lparr>path := ''/assets/config.js''\<rparr>)
   \<and> response_code (snd (do_GET lib0 base0
        ((new_handler (world0 (Some (str ''abc123''))) (request_1_1 ''GET'' ''/config.js''))
           \<lparr>path := ''/assets/config.js''\<rparr>))) = Some 404"
proof -
  let ?h = "new_handler (world0 (Some (str ''abc123''))) (request_1_1 ''GET'' ''/config.js'')"
  have k: "current_key (world0 (Some (str ''abc123''))) = str ''abc123''"
    by (simp add: current_key_def world0_def environ_get_def)
  have s: "\<not> list_ex is_surrogate (current_key (world ?h))"
    using list_ex_surrogate_str_ascii [of "''abc123''"] by (simp add: k)
  have v: "request_version ?h \<noteq> ''HTTP/0.9''"
    by simp
  have pl: "plain_path ''/assets/config.js''" and ne: "''/assets/config.js'' \<noteq> ''/config.js''"
    by (simp_all add: plain_path_def)
  note inst = config_match_on_parsed_path
      [where L = lib0 and B = base0 and self = ?h and q = "''v=2''"
         and p = "''/assets/config.js''"]
  from inst s have
    "wfile (snd (do_GET lib0 base0 (?h\<lparr>path := ''/config.js?'' @ ''v=2''\<rparr>))) =
       wfile ?h
         @ concat (map utf8_char (str (''window.RAPIDAPI_KEY = '' @ [CHR 0x27])))
         @ concat (map utf8_char (current_key (world ?h)))
         @ concat (map utf8_char (str (CHR 0x27 # '';'')))"
    by blast
  then have c1: "wfile (snd (do_GET lib0 base0 (?h\<lparr>path := ''/config.js?'' @ ''v=2''\<rparr>))) =
       map of_char (''window.RAPIDAPI_KEY = '' @ [CHR 0x27] @ ''abc123'' @ [CHR 0x27] @ '';'')"
    by (simp add: k del: append.simps) (simp add: str_def utf8_char_def of_nat_of_char)
  from inst v have c2:
    "response_code (snd (do_GET lib0 base0 (?h\<lparr>path := ''/config.js?'' @ ''v=2''\<rparr>))) = Some 200"
    by blast
  from inst pl ne have c3:
    "do_GET lib0 base0 (?h\<lparr>path := ''/assets/config.js''\<rparr>) =
       super_do_GET base0 (?h\<lparr>path := ''/assets/config.js''\<rparr>)"
    by blast
  have c4: "response_code (snd (do_GET lib0 base0 (?h\<lparr>path := ''/assets/config.js''\<rparr>))) =
              Some 404"
    unfolding c3
    by (simp add: super_do_GET_def base0_def static_do_GET_def send_response_sent world0_def)
  from s c1 v c2 pl ne c3 c4 show ?thesis
    by (intro conjI)
qed

text \<open>
  C10 (where the claim fails). The variable holds the bytes of \<open>caf\<close> followed by the
  byte \<open>0xE9\<close>, which \<open>os.environ\<close> gives as the code points of \<open>caf\<close> and the lone
  surrogate \<open>U+DCE9\<close>: a character that is not ASCII. The statement has no UTF-8
  encoding; \<open>encode\<close> raises and no byte of a body is written.
\<close>

theorem config_body_surrogate_key_counterexample:
  "non_ascii 0xDCE9
   \<and> encode_utf8 (config_content [0x63, 0x61, 0x66, 0xDCE9]) = Inl UnicodeEncodeError
   \<and> fst (do_GET lib0 base0
        (new_handler (world0 (Some [0x63, 0x61, 0x66, 0xDCE9]))
           (request_1_1 ''GET'' ''/config.js''))) =
     Raised UnicodeEncodeError
   \<and> wfile (snd (do_GET lib0 base0
        (new_handler (world0 (Some [0x63, 0x61, 0x66, 0xDCE9]))
           (request_1_1 ''GET'' ''/config.js'')))) = []"
proof -
  let ?h = "new_handler (world0 (Some [0x63, 0x61, 0x66, 0xDCE9]))
              (request_1_1 ''GET'' ''/config.js'')"
  have p: "urlparse lib0 (path ?h) = Inr config_js_parsed"
    by (simp add: urlparse_config_js_lib0)
  have q: "pr_path config_js_parsed = ''/config.js''"
    by (simp add: config_js_parsed_def)
  have k: "current_key (world0 (Some [0x63, 0x61, 0x66, 0xDCE9])) = [0x63, 0x61, 0x66, 0xDCE9]"
    by (simp add: current_key_def world0_def environ_get_def)
  have e: "encode_utf8 (config_content [0x63, 0x61, 0x66, 0xDCE9]) = Inl UnicodeEncodeError"
    by (rule encode_config_content_surrogate) (simp add: is_surrogate_def)
  show ?thesis
    by (simp add: do_GET_config [OF p q] k e non_ascii_def)
qed

text \<open>
  C10 (amended). For every value of \<open>RAPIDAPI_KEY\<close> that is free of surrogate code
  points, the bytes written as the body of the \<open>/config.js\<close> response are exactly the
  UTF-8 encoding of the generated statement, and each character of the key that is not
  ASCII stands in the body as its encoding of two bytes or more.
\<close>

theorem config_body_is_utf8:
  assumes "urlparse L (path self) = Inr u" and "pr_path u = ''/config.js''"
    and "\<not> list_ex is_surrogate (current_key (world self))"
  shows "\<exists>bs. encode_utf8 (config_content (current_key (world self))) = Inr bs
           \<and> fst (do_GET L B self) = Returned
           \<and> wfile (snd (do_GET L B self)) = wfile self @ bs
           \<and> (\<forall>c \<in> set (current_key (world self)). non_ascii c \<longrightarrow>
                 2 \<le> length (utf8_char c) \<and> (\<exists>pre post. bs = pre @ utf8_char c @ post))"
proof -
  let ?k = "current_key (world self)"
  let ?bs = "concat (map utf8_char (str (''window.RAPIDAPI_KEY = '' @ [CHR 0x27])))
             @ concat (map utf8_char ?k) @ concat (map utf8_char (str (CHR 0x27 # '';'')))"
  have enc: "encode_utf8 (config_content ?k) = Inr ?bs"
    using assms(3) by (rule encode_config_content)
  have run: "do_GET L B self = (Returned, (config_head L self)\<lparr>wfile := wfile self @ ?bs\<rparr>)"
    by (simp add: do_GET_config [OF assms(1,2)] enc)
  have multi: "2 \<le> length (utf8_char c) \<and> (\<exists>pre post. ?bs = pre @ utf8_char c @ post)"
    if "c \<in> set ?k" and "non_ascii c" for c
  proof -
    from that(1) obtain xs ys where "?k = xs @ c # ys"
      by (auto simp: in_set_conv_decomp)
    then have "?bs =
        (concat (map utf8_char (str (''window.RAPIDAPI_KEY = '' @ [CHR 0x27])))
           @ concat (map utf8_char xs))
        @ utf8_char c
        @ (concat (map utf8_char ys) @ concat (map utf8_char (str (CHR 0x27 # '';''))))"
      by simp
    then have "\<exists>pre post. ?bs = pre @ utf8_char c @ post"
      by blast
    moreover from that(2) have "2 \<le> length (utf8_char c)"
      by (simp add: utf8_char_def non_ascii_def)
    ultimately show ?thesis by simp
  qed
  show ?thesis
    using enc run multi by (intro exI [of _ ?bs]) simp
qed

theorem config_body_is_utf8_witness:
  "urlparse lib0
     (path (new_handler (world0 (Some [0x68, 0xE9])) (request_1_1 ''GET'' ''/config.js''))) =
     Inr config_js_parsed
   \<and> pr_path config_js_parsed = ''/config.js''
   \<and> \<not> list_ex is_surrogate (current_key (world0 (Some [0x68, 0xE9])))
   \<and> 0xE9 \<in> set (current_key (world0 (Some [0x68, 0xE9])))
   \<and> non_ascii 0xE9
   \<and> utf8_char 0xE9 = [0xC3, 0xA9]
   \<and> (\<exists>bs. encode_utf8 (config_content (current_key (world0 (Some [0x68, 0xE9])))) = Inr bs
         \<and> wfile (snd (do_GET lib0 base0
              (new_handler (world0 (Some [0x68, 0xE9])) (request_1_1 ''GET'' ''/config.js'')))) = bs
         \<and> (\<exists>pre post. bs = pre @ utf8_char 0xE9 @ post))"
proof -
  let ?h = "new_handler (world0 (Some [0x68, 0xE9])) (request_1_1 ''GET'' ''/config.js'')"
  have p: "urlparse lib0 (path ?h) = Inr config_js_parsed"
    by (simp add: urlparse_config_js_lib0)
  have q: "pr_path config_js_parsed = ''/config.js''"
    by (simp add: config_js_parsed_def)
  have w: "world ?h = world0 (Some [0x68, 0xE9])" and f: "wfile ?h = []"
    by simp_all
  have k: "current_key (world0 (Some [0x68, 0xE9])) = [0x68, 0xE9]"
    by (simp add: current_key_def world0_def environ_get_def)
  have s: "\<not> list_ex is_surrogate (current_key (world ?h))"
    by (simp add: k is_surrogate_def)
  have m: "0xE9 \<in> set (current_key (world0 (Some [0x68, 0xE9])))"
    by (simp add: k)
  have n: "non_ascii 0xE9"
    by (simp add: non_ascii_def)
  have e: "utf8_char 0xE9 = [0xC3, 0xA9]"
    by (simp add: utf8_char_def)
  from config_body_is_utf8 [OF p q s, of base0]
  obtain bs where bs:
    "encode_utf8 (config_content (current_key (world ?h))) = Inr bs"
    "wfile (snd (do_GET lib0 base0 ?h)) = wfile ?h @ bs"
    "\<forall>c \<in> set (current_key (world ?h)). non_ascii c \<longrightarrow>
       2 \<le> length (utf8_char c) \<and> (\<exists>pre post. bs = pre @ utf8_char c @ post)"
    by blast
  from bs(3) m n have "\<exists>pre post. bs = pre @ utf8_char 0xE9 @ post"
    unfolding w by blast
  with bs(1,2) have "\<exists>bs. encode_utf8 (config_content (current_key (world0 (Some [0x68, 0xE9])))) = Inr bs
         \<and> wfile (snd (do_GET lib0 base0 ?h)) = bs
         \<and> (\<exists>pre post. bs = pre @ utf8_char 0xE9 @ post)"
    unfolding w f by auto
  with p q s m n e show ?thesis
    unfolding w by blast
qed


end
